theory Spec2Isabelle
  imports Complex_Main
begin

section \<open>The stats card of src/cards/stats-card.js\<close>

text \<open>
  A shallow embedding of \<^verbatim>\<open>src/cards/stats-card.js\<close>. JavaScript numbers are
  modelled as real numbers, with the value NaN written out where the code can produce it
  (\<open>None\<close> of a \<open>real option\<close>). Text is a \<open>string\<close>, the UTF-8 bytes of the
  text; in markup the layout whitespace of the template literals (line breaks and
  indentation between tags) is not reproduced.
  Functions imported from other modules, and the built-ins that turn numbers into text,
  are the fields of an environment record \<open>env\<close>.
\<close>

subsection \<open>Data\<close>

text \<open>A value stored in a statistic row: a number, or the text that \<^verbatim>\<open>toFixed\<close> returns.\<close>

datatype jsval = Num real | Str string

text \<open>The option \<^verbatim>\<open>card_width\<close>, of type number: absent, NaN or a number.\<close>

datatype js_number = Undefined | NaN | Number real

text \<open>\<^verbatim>\<open>new CustomError(message, secondaryMessage)\<close>.\<close>

datatype error = CustomError string string

record rank_data =
  level :: string
  percentile :: real

record stats_data =
  name :: string
  totalStars :: real
  totalCommits :: real
  totalIssues :: real
  totalPRs :: real
  totalPRsMerged :: real
  mergedPRsPercentage :: real
  totalReviews :: real
  totalDiscussionsStarted :: real
  totalDiscussionsAnswered :: real
  contributedTo :: real
  rank :: rank_data

text \<open>
  The options after destructuring, that is with the defaults of lines 220-244 filled in
  (\<open>defaultOptions\<close> below is the empty options object). The options \<^verbatim>\<open>show\<close>
  and \<^verbatim>\<open>locale\<close> are the fields \<open>show_keys\<close> and \<open>locale_opt\<close>.
\<close>

record stat_card_options =
  hide :: "string list"
  show_icons :: bool
  hide_title :: bool
  hide_border :: bool
  card_width :: js_number
  hide_rank :: bool
  include_all_commits :: bool
  line_height :: jsval
  title_color :: "string option"
  ring_color :: "string option"
  icon_color :: "string option"
  text_color :: "string option"
  text_bold :: bool
  bg_color :: "string option"
  theme :: string
  custom_title :: "string option"
  border_radius :: "real option"
  border_color :: "string option"
  number_format :: string
  locale_opt :: "string option"
  disable_animations :: bool
  rank_icon :: string
  show_keys :: "string list"

definition defaultOptions :: stat_card_options where
  "defaultOptions = \<lparr>
     hide = [], show_icons = False, hide_title = False, hide_border = False,
     card_width = Undefined, hide_rank = False, include_all_commits = False,
     line_height = Num 25, title_color = None, ring_color = None, icon_color = None,
     text_color = None, text_bold = True, bg_color = None, theme = ''default'',
     custom_title = None, border_radius = None, border_color = None,
     number_format = ''short'', locale_opt = None, disable_animations = False,
     rank_icon = ''default'', show_keys = [] \<rparr>"

text \<open>
  The argument and the result of \<^verbatim>\<open>getCardColors\<close>; the frame is given the
  result without the ring colour (lines 462-468).
\<close>

record color_options =
  co_title_color :: "string option"
  co_text_color :: "string option"
  co_icon_color :: "string option"
  co_bg_color :: "string option"
  co_border_color :: "string option"
  co_ring_color :: "string option"
  co_theme :: string

record card_colors =
  titleColor :: string
  iconColor :: string
  textColor :: string
  bgColor :: string
  borderColor :: string

record theme_colors = card_colors +
  ringColor :: string

text \<open>
  The state of the \<^verbatim>\<open>Card\<close> object when \<^verbatim>\<open>render\<close> is called: what the
  constructor and the setters of lines 454-477 and 530-533 stored in it.
\<close>

record card =
  customTitle :: "string option"
  defaultTitle :: string
  title :: string
  width :: real
  height :: "real option"
  cardBorderRadius :: "real option"
  colors :: card_colors
  hideBorder :: bool
  hideTitle :: bool
  css :: string
  animations :: bool
  a11yTitle :: string
  a11yDesc :: string

text \<open>
  The collaborators: the modules imported in lines 2-13, the number-to-text built-ins,
  the clock and the process environment.
\<close>

record env =
  i18n_t :: "string option \<Rightarrow> string \<Rightarrow> string \<Rightarrow> string \<Rightarrow> string"
  icons :: "string \<Rightarrow> string"
  rankIcon :: "string \<Rightarrow> string \<Rightarrow> real \<Rightarrow> string"
  kFormatter :: "jsval \<Rightarrow> jsval"
  measureText :: "string \<Rightarrow> real"
  getCardColors :: "color_options \<Rightarrow> theme_colors"
  flexLayout :: "string list \<Rightarrow> real option \<Rightarrow> string \<Rightarrow> string list"
  cardTitle :: "string option \<Rightarrow> string \<Rightarrow> string"
  cardRender :: "card \<Rightarrow> string \<Rightarrow> string"
  toFixed2 :: "real \<Rightarrow> string"
  numberToString :: "real \<Rightarrow> string"
  currentYear :: nat
  nodeEnvTest :: bool

text \<open>
  \<open>i18n_t e locale name apostrophe key\<close> is \<^verbatim>\<open>i18n.t(key)\<close> of the
  \<^verbatim>\<open>I18n\<close> object of lines 263-266; \<open>cardTitle e customTitle defaultTitle\<close> is the
  \<^verbatim>\<open>title\<close> field the \<^verbatim>\<open>Card\<close> constructor computes; \<open>numberToString\<close> is the
  conversion of a number inside a template literal and in \<^verbatim>\<open>String(...)\<close>.
\<close>

subsection \<open>Built-ins of the language\<close>

definition jsString :: "env \<Rightarrow> jsval \<Rightarrow> string" where
  "jsString e v = (case v of Num r \<Rightarrow> numberToString e r | Str s \<Rightarrow> s)"

text \<open>A number that may be NaN, inside a template literal.\<close>

definition jsNumString :: "env \<Rightarrow> real option \<Rightarrow> string" where
  "jsNumString e v = (case v of None \<Rightarrow> ''NaN'' | Some r \<Rightarrow> numberToString e r)"

definition toLowerChar :: "char \<Rightarrow> char" where
  "toLowerChar c =
     (let n = (of_char c :: nat) in if 65 \<le> n \<and> n \<le> 90 then char_of (n + 32) else c)"

definition toLowerCase :: "string \<Rightarrow> string" where
  "toLowerCase s = map toLowerChar s"

text \<open>\<^verbatim>\<open>s.slice(-1)\<close>: the last character, or the empty string.\<close>

definition sliceLast :: "string \<Rightarrow> string" where
  "sliceLast s = (if s = [] then [] else [last s])"

text \<open>\<^verbatim>\<open>xs.join(sep)\<close>.\<close>

fun join :: "string \<Rightarrow> string list \<Rightarrow> string" where
  "join sep [] = []"
| "join sep [x] = x"
| "join sep (x # y # ys) = x @ sep @ join sep (y # ys)"

text \<open>
  The decimal digits of a natural number: the text of a non-negative whole number, as a
  query string carries it and as \<^verbatim>\<open>String\<close> prints it.
\<close>

fun natString :: "nat \<Rightarrow> string" where
  "natString n =
     (if n < 10 then [char_of (48 + n)]
      else natString (n div 10) @ [char_of (48 + n mod 10)])"

declare natString.simps [simp del]

text \<open>
  The white space that \<^verbatim>\<open>parseInt\<close> skips (the language's white space and line
  terminators), on a string held as its UTF-8 bytes: one byte for tab, line feed, vertical
  tab, form feed, carriage return and space; two bytes for U+00A0; three bytes for
  U+1680, U+2000 to U+200A, U+2028, U+2029, U+202F, U+205F, U+3000 and U+FEFF.
\<close>

definition isWhiteSpace1 :: "char \<Rightarrow> bool" where
  "isWhiteSpace1 a = ((of_char a :: nat) \<in> {9, 10, 11, 12, 13, 32})"

definition isWhiteSpace2 :: "char \<Rightarrow> char \<Rightarrow> bool" where
  "isWhiteSpace2 a b = ((of_char a :: nat) = 194 \<and> (of_char b :: nat) = 160)"

definition isWhiteSpace3 :: "char \<Rightarrow> char \<Rightarrow> char \<Rightarrow> bool" where
  "isWhiteSpace3 a b c =
     (let x = (of_char a :: nat); y = (of_char b :: nat); z = (of_char c :: nat)
      in (x = 225 \<and> y = 154 \<and> z = 128)
       \<or> (x = 226 \<and> y = 128 \<and> (128 \<le> z \<and> z \<le> 138 \<or> z = 168 \<or> z = 169 \<or> z = 175))
       \<or> (x = 226 \<and> y = 129 \<and> z = 159)
       \<or> (x = 227 \<and> y = 128 \<and> z = 128)
       \<or> (x = 239 \<and> y = 187 \<and> z = 191))"

fun skipWhiteSpace :: "string \<Rightarrow> string" where
  "skipWhiteSpace [] = []"
| "skipWhiteSpace [a] = (if isWhiteSpace1 a then [] else [a])"
| "skipWhiteSpace [a, b] =
     (if isWhiteSpace1 a then skipWhiteSpace [b]
      else if isWhiteSpace2 a b then []
      else [a, b])"
| "skipWhiteSpace (a # b # c # s) =
     (if isWhiteSpace1 a then skipWhiteSpace (b # c # s)
      else if isWhiteSpace2 a b then skipWhiteSpace (c # s)
      else if isWhiteSpace3 a b c then skipWhiteSpace s
      else a # b # c # s)"

definition isDigit :: "char \<Rightarrow> bool" where
  "isDigit c = (48 \<le> (of_char c :: nat) \<and> (of_char c :: nat) \<le> 57)"

fun parseDigits :: "nat \<Rightarrow> string \<Rightarrow> nat" where
  "parseDigits acc [] = acc"
| "parseDigits acc (c # cs) =
     (if isDigit c then parseDigits (10 * acc + ((of_char c :: nat) - 48)) cs else acc)"

text \<open>
  \<^verbatim>\<open>parseInt(s, 10)\<close>: leading white space is skipped, a sign is read, then the
  longest run of decimal digits; with no digit the result is NaN (\<open>None\<close>). The run
  is read as the number it denotes: numbers are reals here, so a run of more than fifteen
  digits is not rounded to the nearest double as the language does.
\<close>

definition parseInt10 :: "string \<Rightarrow> real option" where
  "parseInt10 s =
     (let t = skipWhiteSpace s;
          neg = (t \<noteq> [] \<and> hd t = CHR ''-'');
          u = (if t \<noteq> [] \<and> (hd t = CHR ''-'' \<or> hd t = CHR ''+'') then tl t else t)
      in if u = [] \<or> \<not> isDigit (hd u) then None
         else Some ((if neg then - 1 else 1) * real (parseDigits 0 u)))"

text \<open>The truth value of a \<^verbatim>\<open>card_width\<close> and \<^verbatim>\<open>isNaN\<close> of it.\<close>

definition truthy :: "js_number \<Rightarrow> bool" where
  "truthy w = (case w of Undefined \<Rightarrow> False | NaN \<Rightarrow> False | Number r \<Rightarrow> r \<noteq> 0)"

definition isNaN :: "js_number \<Rightarrow> bool" where
  "isNaN w = (case w of Undefined \<Rightarrow> True | NaN \<Rightarrow> True | Number r \<Rightarrow> False)"

text \<open>
  Modelled from the spec: \<^verbatim>\<open>clampValue\<close> of \<^verbatim>\<open>../common/utils.js\<close> is not among the
  sources; the spec gives its one use as
  "clamp(50 + 2 x measuredTitleWidth, floor=287, no ceiling)". The ceiling
  \<^verbatim>\<open>Infinity\<close> is the value \<open>None\<close>.
\<close>

definition clampValue :: "real \<Rightarrow> real \<Rightarrow> real option \<Rightarrow> real" where
  "clampValue number lo hi =
     (case hi of None \<Rightarrow> max lo number | Some h \<Rightarrow> max lo (min number h))"

subsection \<open>Constants (lines 15-20)\<close>

definition CARD_MIN_WIDTH :: real where "CARD_MIN_WIDTH = 287"
definition CARD_DEFAULT_WIDTH :: real where "CARD_DEFAULT_WIDTH = 287"
definition RANK_CARD_MIN_WIDTH :: real where "RANK_CARD_MIN_WIDTH = 420"
definition RANK_CARD_DEFAULT_WIDTH :: real where "RANK_CARD_DEFAULT_WIDTH = 450"
definition RANK_ONLY_CARD_MIN_WIDTH :: real where "RANK_ONLY_CARD_MIN_WIDTH = 290"
definition RANK_ONLY_CARD_DEFAULT_WIDTH :: real where "RANK_ONLY_CARD_DEFAULT_WIDTH = 290"

subsection \<open>Statistic rows\<close>

text \<open>
  An entry of the object \<^verbatim>\<open>STATS\<close> (fields \<^verbatim>\<open>value\<close> and \<^verbatim>\<open>id\<close> are
  \<open>val\<close> and \<open>stat_id\<close>), and the parameter object of \<^verbatim>\<open>createTextNode\<close>, which
  extends it.
\<close>

record stat_entry =
  icon :: string
  label :: string
  val :: jsval
  stat_id :: string
  unitSymbol :: "string option"

record text_node_params = stat_entry +
  index :: nat
  showIcons :: bool
  shiftValuePos :: real
  bold :: bool
  numberFormat :: string

text \<open>The expression of line 70: the x position of the value text.\<close>

definition valueX :: "text_node_params \<Rightarrow> real" where
  "valueX p = (if showIcons p then 140 else 120) + shiftValuePos p"

definition kValue :: "env \<Rightarrow> text_node_params \<Rightarrow> jsval" where
  "kValue e p =
     (if toLowerCase (numberFormat p) = ''long'' then val p else kFormatter e (val p))"

definition staggerDelay :: "text_node_params \<Rightarrow> real" where
  "staggerDelay p = (real (index p) + 3) * 150"

definition createTextNode :: "env \<Rightarrow> text_node_params \<Rightarrow> string" where
  \<open>createTextNode e p =
     (let labelOffset = (if showIcons p then ''x="25"'' else '''');
          iconSvg = (if showIcons p
            then ''<svg data-testid="icon" class="icon" viewBox="0 0 16 16" version="1.1" width="16" height="16">''
                 @ icon p @ ''</svg>''
            else '''');
          cls = (if bold p then '' bold'' else ''not_bold'')
      in ''<g class="stagger" style="animation-delay: '' @ numberToString e (staggerDelay p)
         @ ''ms" transform="translate(25, 0)">'' @ iconSvg
         @ ''<text class="stat '' @ cls @ ''" '' @ labelOffset @ '' y="12.5">'' @ label p
         @ '':</text><text class="stat '' @ cls @ ''" x="'' @ numberToString e (valueX p)
         @ ''" y="12.5" data-testid="'' @ stat_id p @ ''">'' @ jsString e (kValue e p)
         @ (case unitSymbol p of None \<Rightarrow> ''''
            | Some u \<Rightarrow> if u = [] then '''' else '' '' @ u)
         @ ''</text></g>'')\<close>

subsection \<open>The rank circle\<close>

definition calculateCircleProgress :: "real \<Rightarrow> real" where
  "calculateCircleProgress v =
     (let radius = 40;
          c = pi * (radius * 2);
          v1 = (if v < 0 then 0 else v);
          v2 = (if v1 > 100 then 100 else v1)
      in ((100 - v2) / 100) * c)"

definition getProgressAnimation :: "env \<Rightarrow> real \<Rightarrow> string" where
  "getProgressAnimation e progress =
     ''@keyframes rankAnimation { from { stroke-dashoffset: ''
     @ numberToString e (calculateCircleProgress 0)
     @ ''; } to { stroke-dashoffset: ''
     @ numberToString e (calculateCircleProgress progress)
     @ ''; } }''"

definition getStyles :: "env \<Rightarrow> theme_colors \<Rightarrow> bool \<Rightarrow> real \<Rightarrow> string" where
  \<open>getStyles e cols showIcons_flag progress =
     ''.stat { font: 600 14px 'Segoe UI', Ubuntu, "Helvetica Neue", Sans-Serif; fill: ''
     @ textColor cols
     @ ''; } @supports(-moz-appearance: auto) { /* Selector detects Firefox */ ''
     @ ''.stat { font-size:12px; } } ''
     @ ''.stagger { opacity: 0; animation: fadeInAnimation 0.3s ease-in-out forwards; } ''
     @ ''.rank-text { font: 800 24px 'Segoe UI', Ubuntu, Sans-Serif; fill: ''
     @ textColor cols
     @ ''; animation: scaleInAnimation 0.5s ease-in-out forwards; animation-delay: 0ms; } ''
     @ ''.rank-percentile-header { font-size: 14px; } .rank-percentile-text { font-size: 16px; } ''
     @ ''.not_bold { font-weight: 400 } .bold { font-weight: 700 } .icon { fill: ''
     @ iconColor cols @ ''; display: '' @ (if showIcons_flag then ''block'' else ''none'')
     @ ''; } .rank-circle-rim { stroke: '' @ ringColor cols
     @ ''; fill: none; stroke-width: 6; opacity: 0.2; animation-delay: 0ms; } ''
     @ ''.rank-circle { stroke: '' @ ringColor cols
     @ ''; stroke-dasharray: 250; fill: none; stroke-width: 6; stroke-linecap: round; ''
     @ ''opacity: 0.8; transform-origin: -10px 8px; transform: rotate(-90deg); ''
     @ ''animation: rankAnimation 1s forwards ease-in-out; animation-delay: 0ms; } ''
     @ (if nodeEnvTest e then '''' else getProgressAnimation e progress)\<close>

subsection \<open>renderStatsCard\<close>

definition apostrophe :: "stats_data \<Rightarrow> string" where
  "apostrophe stats =
     (if toLowerCase (sliceLast (name stats)) \<in> set [''x'', ''s''] then '''' else ''s'')"

text \<open>\<^verbatim>\<open>i18n.t\<close> of the object built in lines 263-266.\<close>

definition i18n :: "env \<Rightarrow> stats_data \<Rightarrow> stat_card_options \<Rightarrow> string \<Rightarrow> string" where
  "i18n e stats opts = i18n_t e (locale_opt opts) (name stats) (apostrophe stats)"

text \<open>
  The object \<^verbatim>\<open>STATS\<close> of lines 269-349, as the list of its properties in insertion
  order (the keys are distinct and none is an array index, so \<^verbatim>\<open>Object.keys\<close>
  enumerates them in this order).
\<close>

definition STATS :: "env \<Rightarrow> stats_data \<Rightarrow> stat_card_options \<Rightarrow> (string \<times> stat_entry) list" where
  "STATS e stats opts =
     [(''stars'',
        \<lparr>icon = icons e ''star'', label = i18n e stats opts ''statcard.totalstars'',
         val = Num (totalStars stats), stat_id = ''stars'', unitSymbol = None\<rparr>),
      (''commits'',
        \<lparr>icon = icons e ''commits'',
         label = i18n e stats opts ''statcard.commits''
           @ (if include_all_commits opts then ''''
              else '' ('' @ numberToString e (real (currentYear e)) @ '')''),
         val = Num (totalCommits stats), stat_id = ''commits'', unitSymbol = None\<rparr>),
      (''prs'',
        \<lparr>icon = icons e ''prs'', label = i18n e stats opts ''statcard.prs'',
         val = Num (totalPRs stats), stat_id = ''prs'', unitSymbol = None\<rparr>)]
     @ (if ''prs_merged'' \<in> set (show_keys opts) then
         [(''prs_merged'',
            \<lparr>icon = icons e ''prs_merged'', label = i18n e stats opts ''statcard.prs-merged'',
             val = Num (totalPRsMerged stats), stat_id = ''prs_merged'',
             unitSymbol = None\<rparr>)]
        else [])
     @ (if ''prs_merged_percentage'' \<in> set (show_keys opts) then
         [(''prs_merged_percentage'',
            \<lparr>icon = icons e ''prs_merged_percentage'',
             label = i18n e stats opts ''statcard.prs-merged-percentage'',
             val = Str (toFixed2 e (mergedPRsPercentage stats)),
             stat_id = ''prs_merged_percentage'', unitSymbol = Some ''%''\<rparr>)]
        else [])
     @ (if ''reviews'' \<in> set (show_keys opts) then
         [(''reviews'',
            \<lparr>icon = icons e ''reviews'', label = i18n e stats opts ''statcard.reviews'',
             val = Num (totalReviews stats), stat_id = ''reviews'', unitSymbol = None\<rparr>)]
        else [])
     @ [(''issues'',
          \<lparr>icon = icons e ''issues'', label = i18n e stats opts ''statcard.issues'',
           val = Num (totalIssues stats), stat_id = ''issues'', unitSymbol = None\<rparr>)]
     @ (if ''discussions_started'' \<in> set (show_keys opts) then
         [(''discussions_started'',
            \<lparr>icon = icons e ''discussions_started'',
             label = i18n e stats opts ''statcard.discussions-started'',
             val = Num (totalDiscussionsStarted stats), stat_id = ''discussions_started'',
             unitSymbol = None\<rparr>)]
        else [])
     @ (if ''discussions_answered'' \<in> set (show_keys opts) then
         [(''discussions_answered'',
            \<lparr>icon = icons e ''discussions_answered'',
             label = i18n e stats opts ''statcard.discussions-answered'',
             val = Num (totalDiscussionsAnswered stats), stat_id = ''discussions_answered'',
             unitSymbol = None\<rparr>)]
        else [])
     @ [(''contribs'',
          \<lparr>icon = icons e ''contribs'', label = i18n e stats opts ''statcard.contribs'',
           val = Num (contributedTo stats), stat_id = ''contribs'', unitSymbol = None\<rparr>)]"

definition longLocales :: "string list" where
  "longLocales = [''cn'', ''es'', ''fr'', ''pt-br'', ''ru'', ''uk-ua'', ''id'', ''ml'', ''my'',
                  ''pl'', ''de'', ''nl'', ''zh-tw'', ''uz'']"

definition isLongLocale :: "stat_card_options \<Rightarrow> bool" where
  "isLongLocale opts =
     (case locale_opt opts of None \<Rightarrow> False
      | Some l \<Rightarrow> if l = [] then False else l \<in> set longLocales)"

text \<open>
  \<^verbatim>\<open>Object.keys(STATS).filter((key) => !hide.includes(key))\<close>, each key kept with the
  entry \<^verbatim>\<open>STATS[key]\<close> that lines 375-379 and 524-526 read.
\<close>

definition visibleStats :: "env \<Rightarrow> stats_data \<Rightarrow> stat_card_options \<Rightarrow> (string \<times> stat_entry) list" where
  "visibleStats e stats opts = filter (\<lambda>(key, entry). key \<notin> set (hide opts)) (STATS e stats opts)"

text \<open>The arguments of the calls of \<^verbatim>\<open>createTextNode\<close> in lines 372-386.\<close>

definition statItemParams :: "env \<Rightarrow> stats_data \<Rightarrow> stat_card_options \<Rightarrow> text_node_params list" where
  "statItemParams e stats opts =
     map (\<lambda>(i, key, entry).
            \<lparr>icon = icon entry, label = label entry, val = val entry,
             stat_id = stat_id entry, unitSymbol = unitSymbol entry,
             index = i, showIcons = show_icons opts,
             shiftValuePos = 79.01 + (if isLongLocale opts then 50 else 0),
             bold = text_bold opts, numberFormat = number_format opts\<rparr>)
         (enumerate 0 (visibleStats e stats opts))"

definition statItems :: "env \<Rightarrow> stats_data \<Rightarrow> stat_card_options \<Rightarrow> string list" where
  "statItems e stats opts = map (createTextNode e) (statItemParams e stats opts)"

definition lheight :: "env \<Rightarrow> stat_card_options \<Rightarrow> real option" where
  "lheight e opts = parseInt10 (jsString e (line_height opts))"

text \<open>
  Lines 397-400; \<open>n\<close> is \<^verbatim>\<open>statItems.length\<close>. \<^verbatim>\<open>Math.max\<close> of NaN is NaN.
\<close>

definition cardHeight :: "nat \<Rightarrow> real option \<Rightarrow> bool \<Rightarrow> real option" where
  "cardHeight n lh hideRank =
     (case lh of None \<Rightarrow> None
      | Some l \<Rightarrow> Some (max (45 + (real n + 1) * l)
                          (if hideRank then 0 else if n \<noteq> 0 then 150 else 180)))"

definition defaultTitleOf :: "env \<Rightarrow> stats_data \<Rightarrow> stat_card_options \<Rightarrow> nat \<Rightarrow> string" where
  "defaultTitleOf e stats opts n =
     (if n \<noteq> 0 then i18n e stats opts ''statcard.title''
      else i18n e stats opts ''statcard.ranktitle'')"

definition calculateTextWidth :: "env \<Rightarrow> stats_data \<Rightarrow> stat_card_options \<Rightarrow> nat \<Rightarrow> real" where
  "calculateTextWidth e stats opts n =
     measureText e
       (case custom_title opts of
          None \<Rightarrow> defaultTitleOf e stats opts n
        | Some t \<Rightarrow> if t = [] then defaultTitleOf e stats opts n else t)"

definition iconWidth :: "stat_card_options \<Rightarrow> nat \<Rightarrow> real" where
  "iconWidth opts n = (if show_icons opts \<and> n \<noteq> 0 then 16 + 1 else 0)"

definition minCardWidth :: "env \<Rightarrow> stats_data \<Rightarrow> stat_card_options \<Rightarrow> nat \<Rightarrow> real" where
  "minCardWidth e stats opts n =
     (if hide_rank opts
      then clampValue (50 + calculateTextWidth e stats opts n * 2) CARD_MIN_WIDTH None
      else if n \<noteq> 0 then RANK_CARD_MIN_WIDTH
      else RANK_ONLY_CARD_MIN_WIDTH) + iconWidth opts n"

definition defaultCardWidth :: "stat_card_options \<Rightarrow> nat \<Rightarrow> real" where
  "defaultCardWidth opts n =
     (if hide_rank opts then CARD_DEFAULT_WIDTH
      else if n \<noteq> 0 then RANK_CARD_DEFAULT_WIDTH
      else RANK_ONLY_CARD_DEFAULT_WIDTH) + iconWidth opts n"

text \<open>Lines 445-452: the final width, from the option, the default and the minimum.\<close>

definition finalWidth :: "js_number \<Rightarrow> real \<Rightarrow> real \<Rightarrow> real" where
  "finalWidth cw dflt minw =
     (let w = (if truthy cw
               then (if isNaN cw then dflt else (case cw of Number r \<Rightarrow> r | _ \<Rightarrow> dflt))
               else dflt)
      in if w < minw then minw else w)"

definition calculateRankXTranslation :: "nat \<Rightarrow> real \<Rightarrow> real \<Rightarrow> real \<Rightarrow> real" where
  "calculateRankXTranslation n iconW minW w =
     (if n \<noteq> 0 then
        (let minXTranslation = RANK_CARD_MIN_WIDTH + iconW - 70 in
         if w > RANK_CARD_DEFAULT_WIDTH then
           (let xMaxExpansion = minXTranslation + (450 - minW) / 2
            in xMaxExpansion + w - RANK_CARD_DEFAULT_WIDTH)
         else minXTranslation + (w - minW) / 2)
      else w / 2 + 20 - 10)"

text \<open>The quantities of one call, as functions of its arguments.\<close>

definition rowCount :: "env \<Rightarrow> stats_data \<Rightarrow> stat_card_options \<Rightarrow> nat" where
  "rowCount e stats opts = length (statItems e stats opts)"

definition heightOf :: "env \<Rightarrow> stats_data \<Rightarrow> stat_card_options \<Rightarrow> real option" where
  "heightOf e stats opts =
     cardHeight (rowCount e stats opts) (lheight e opts) (hide_rank opts)"

definition widthOf :: "env \<Rightarrow> stats_data \<Rightarrow> stat_card_options \<Rightarrow> real" where
  "widthOf e stats opts =
     finalWidth (card_width opts)
       (defaultCardWidth opts (rowCount e stats opts))
       (minCardWidth e stats opts (rowCount e stats opts))"

definition rankXOf :: "env \<Rightarrow> stats_data \<Rightarrow> stat_card_options \<Rightarrow> real" where
  "rankXOf e stats opts =
     calculateRankXTranslation (rowCount e stats opts)
       (iconWidth opts (rowCount e stats opts))
       (minCardWidth e stats opts (rowCount e stats opts))
       (widthOf e stats opts)"

definition cardColorsOf :: "env \<Rightarrow> stat_card_options \<Rightarrow> theme_colors" where
  "cardColorsOf e opts =
     getCardColors e
       \<lparr>co_title_color = title_color opts, co_text_color = text_color opts,
        co_icon_color = icon_color opts, co_bg_color = bg_color opts,
        co_border_color = border_color opts, co_ring_color = ring_color opts,
        co_theme = theme opts\<rparr>"

text \<open>Line 403: the lower the percentile of the user, the better.\<close>

definition progressOf :: "stats_data \<Rightarrow> real" where
  "progressOf stats = 100 - percentile (rank stats)"

text \<open>Lines 504-515.\<close>

definition rankCircle :: "env \<Rightarrow> stats_data \<Rightarrow> stat_card_options \<Rightarrow> string" where
  \<open>rankCircle e stats opts =
     (if hide_rank opts then ''''
      else ''<g data-testid="rank-circle" transform="translate(''
           @ numberToString e (rankXOf e stats opts) @ '', ''
           @ jsNumString e (map_option (\<lambda>h. h / 2 - 50) (heightOf e stats opts)) @ '')">''
           @ ''<circle class="rank-circle-rim" cx="-10" cy="8" r="40" />''
           @ ''<circle class="rank-circle" cx="-10" cy="8" r="40" />''
           @ ''<g class="rank-text">''
           @ rankIcon e (rank_icon opts) (level (rank stats)) (percentile (rank stats))
           @ ''</g></g>'')\<close>

text \<open>Lines 518-527: one entry of the accessibility description per visible key.\<close>

definition accessLabel :: "env \<Rightarrow> stats_data \<Rightarrow> stat_card_options \<Rightarrow> string \<times> stat_entry \<Rightarrow> string" where
  "accessLabel e stats opts ke =
     (case ke of (key, entry) \<Rightarrow>
        if key = ''commits''
        then i18n e stats opts ''statcard.commits'' @ '' ''
             @ (if include_all_commits opts then ''''
                else ''in '' @ numberToString e (real (currentYear e)))
             @ '' : '' @ jsString e (val entry)
        else label entry @ '': '' @ jsString e (val entry))"

definition accessLabels :: "env \<Rightarrow> stats_data \<Rightarrow> stat_card_options \<Rightarrow> string list" where
  "accessLabels e stats opts = map (accessLabel e stats opts) (visibleStats e stats opts)"

definition labels :: "env \<Rightarrow> stats_data \<Rightarrow> stat_card_options \<Rightarrow> string" where
  "labels e stats opts = join '', '' (accessLabels e stats opts)"

text \<open>The \<^verbatim>\<open>Card\<close> object of lines 454-477 and 530-533.\<close>

definition buildCard :: "env \<Rightarrow> stats_data \<Rightarrow> stat_card_options \<Rightarrow> card" where
  "buildCard e stats opts =
     (let n = rowCount e stats opts;
          cols = cardColorsOf e opts;
          progress = progressOf stats;
          cssStyles = getStyles e cols (show_icons opts) progress;
          t = cardTitle e (custom_title opts) (defaultTitleOf e stats opts n)
      in \<lparr>customTitle = custom_title opts,
          defaultTitle = defaultTitleOf e stats opts n,
          title = t,
          width = widthOf e stats opts,
          height = heightOf e stats opts,
          cardBorderRadius = border_radius opts,
          colors = card_colors.truncate cols,
          hideBorder = hide_border opts,
          hideTitle = hide_title opts,
          css = cssStyles,
          animations = (\<not> disable_animations opts),
          a11yTitle = t @ '', Rank: '' @ level (rank stats),
          a11yDesc = labels e stats opts\<rparr>)"

text \<open>The argument of \<^verbatim>\<open>card.render\<close>, lines 535-544.\<close>

definition cardBody :: "env \<Rightarrow> stats_data \<Rightarrow> stat_card_options \<Rightarrow> string" where
  \<open>cardBody e stats opts =
     rankCircle e stats opts @ ''<svg x="0" y="0">''
     @ concat (flexLayout e (statItems e stats opts) (lheight e opts) ''column'')
     @ ''</svg>''\<close>

definition renderStatsCard :: "env \<Rightarrow> stats_data \<Rightarrow> stat_card_options \<Rightarrow> error + string" where
  "renderStatsCard e stats opts =
     (if length (statItems e stats opts) = 0 \<and> hide_rank opts
      then Inl (CustomError ''Could not render stats card.''
                            ''Either stats or rank are required.'')
      else Inr (cardRender e (buildCard e stats opts) (cardBody e stats opts)))"

subsection \<open>The row selection in the words of the specification\<close>

text \<open>
  The specification describes the rows as a fixed canonical list, of which five rows are
  always candidates and five only when \<^verbatim>\<open>show\<close> names them, less the keys that
  \<^verbatim>\<open>hide\<close> names.
\<close>

definition canonicalKeys :: "string list" where
  "canonicalKeys = [''stars'', ''commits'', ''prs'', ''prs_merged'', ''prs_merged_percentage'',
                    ''reviews'', ''issues'', ''discussions_started'', ''discussions_answered'',
                    ''contribs'']"

definition alwaysKeys :: "string list" where
  "alwaysKeys = [''stars'', ''commits'', ''prs'', ''issues'', ''contribs'']"

definition specRowKeys :: "string list \<Rightarrow> string list \<Rightarrow> string list" where
  "specRowKeys shown hidden =
     filter (\<lambda>k. (k \<in> set alwaysKeys \<or> k \<in> set shown) \<and> k \<notin> set hidden) canonicalKeys"

subsection \<open>A concrete environment and record\<close>

text \<open>
  Simple collaborators for evaluating the model on concrete input: the translation of a
  key is the key, numbers are not compacted and print as the decimal digits of their
  integer part, a title is measured at five units per character, the colours are those of
  the default theme, and the frame wraps the body in one tag.
\<close>

definition sampleEnv :: env where
  \<open>sampleEnv = \<lparr>
     i18n_t = (\<lambda>loc nm apos key. key),
     icons = (\<lambda>k. k),
     rankIcon = (\<lambda>variant lvl pct. lvl),
     kFormatter = (\<lambda>v. v),
     measureText = (\<lambda>s. 5 * real (length s)),
     getCardColors = (\<lambda>co. \<lparr>titleColor = ''#2f80ed'', iconColor = ''#4c71f2'',
                               textColor = ''#434d58'', bgColor = ''#fffefe'',
                               borderColor = ''#e4e2e2'', ringColor = ''#2f80ed''\<rparr>),
     flexLayout = (\<lambda>items gap direction. items),
     cardTitle = (\<lambda>custom dflt. case custom of None \<Rightarrow> dflt | Some t \<Rightarrow> t),
     cardRender = (\<lambda>c body. ''<svg>'' @ body @ ''</svg>''),
     toFixed2 = (\<lambda>r. ''80.00''),
     numberToString = (\<lambda>r. (if r < 0 then ''-'' else '''') @ natString (nat (floor (abs r)))),
     currentYear = 2026,
     nodeEnvTest = True \<rparr>\<close>

definition sampleStats :: stats_data where
  "sampleStats = \<lparr>
     name = ''Anurag Hazra'', totalStars = 100, totalCommits = 200, totalIssues = 300,
     totalPRs = 400, totalPRsMerged = 320, mergedPRsPercentage = 80, totalReviews = 50,
     totalDiscussionsStarted = 10, totalDiscussionsAnswered = 50, contributedTo = 500,
     rank = \<lparr>level = ''A+'', percentile = 40\<rparr> \<rparr>"

text \<open>Options used as concrete inputs below.\<close>

definition zeroWidthOptions :: stat_card_options where
  "zeroWidthOptions = defaultOptions\<lparr>card_width := Number 0\<rparr>"

definition longTitleOptions :: stat_card_options where
  "longTitleOptions =
     defaultOptions\<lparr>hide_rank := True, card_width := NaN,
       custom_title := Some ''GitHub statistics of the whole organisation''\<rparr>"

section \<open>Properties\<close>

subsection \<open>Auxiliary facts\<close>

lemma STATS_keys:
  "map fst (STATS e stats opts) =
     filter (\<lambda>k. k \<in> set alwaysKeys \<or> k \<in> set (show_keys opts)) canonicalKeys"
  by (simp add: STATS_def canonicalKeys_def alwaysKeys_def)

lemma STATS_stat_id:
  "ke \<in> set (STATS e stats opts) \<Longrightarrow> stat_id (snd ke) = fst ke"
  by (auto simp add: STATS_def split: if_splits)

lemma map_fst_filter_key:
  "map fst (filter (\<lambda>(k, v). P k) xs) = filter P (map fst xs)"
  by (induction xs) auto

lemma visibleStats_keys:
  "map fst (visibleStats e stats opts) = specRowKeys (show_keys opts) (hide opts)"
  by (simp add: visibleStats_def map_fst_filter_key STATS_keys specRowKeys_def)

lemma length_visibleStats:
  "length (visibleStats e stats opts) = length (specRowKeys (show_keys opts) (hide opts))"
  using visibleStats_keys [of e stats opts, THEN arg_cong, of length] by simp

lemma rowCount_keys:
  "rowCount e stats opts = length (specRowKeys (show_keys opts) (hide opts))"
  by (simp add: rowCount_def statItems_def statItemParams_def length_visibleStats)

lemma visibleStats_stat_id:
  "ke \<in> set (visibleStats e stats opts) \<Longrightarrow> stat_id (snd ke) = fst ke"
  by (auto simp add: visibleStats_def dest: STATS_stat_id)

lemma map_enumerate_snd:
  "map (\<lambda>(i, x). f x) (enumerate n xs) = map f xs"
  by (induction xs arbitrary: n) auto

lemma statItemParams_stat_id:
  "map stat_id (statItemParams e stats opts) = map fst (visibleStats e stats opts)"
proof -
  have "map stat_id (statItemParams e stats opts)
      = map (\<lambda>(i, ke). stat_id (snd ke)) (enumerate 0 (visibleStats e stats opts))"
    by (simp add: statItemParams_def case_prod_unfold)
  also have "\<dots> = map (\<lambda>ke. stat_id (snd ke)) (visibleStats e stats opts)"
    by (rule map_enumerate_snd)
  also have "\<dots> = map fst (visibleStats e stats opts)"
    by (rule map_cong) (auto dest: visibleStats_stat_id)
  finally show ?thesis .
qed

lemma statItemParams_index:
  "map index (statItemParams e stats opts) = [0..<length (statItemParams e stats opts)]"
  by (simp add: statItemParams_def case_prod_unfold comp_def map_fst_enumerate)

subsection \<open>Row selection and order\<close>

text \<open>
  Claim C4. For every \<^verbatim>\<open>show\<close> and \<^verbatim>\<open>hide\<close>, the ids of the rendered rows are the
  canonical list (stars, commits, prs, prs_merged, prs_merged_percentage, reviews, issues,
  discussions_started, discussions_answered, contribs) restricted to the keys that are
  always included or named in \<^verbatim>\<open>show\<close>, and not named in \<^verbatim>\<open>hide\<close>, in canonical
  order; the rows carry the indices 0, 1, 2, ... in that order, and the rendered items are
  the text nodes of these rows. The sequence is a function of the data and the options.
\<close>

theorem row_sequence_canonical:
  "map stat_id (statItemParams e stats opts) = specRowKeys (show_keys opts) (hide opts)
   \<and> map index (statItemParams e stats opts) = [0..<length (specRowKeys (show_keys opts) (hide opts))]
   \<and> statItems e stats opts = map (createTextNode e) (statItemParams e stats opts)"
  using statItemParams_stat_id[of e stats opts] statItemParams_index[of e stats opts] 
    visibleStats_keys[of e stats opts] rowCount_keys[of e stats opts]
  by (simp add: statItems_def rowCount_def)


theorem row_sequence_canonical_witness:
  "map stat_id (statItemParams sampleEnv sampleStats
        (defaultOptions\<lparr>show_keys := [''reviews'', ''prs_merged''], hide := [''commits'', ''issues'']\<rparr>))
     = [''stars'', ''prs'', ''prs_merged'', ''reviews'', ''contribs'']"
  using row_sequence_canonical [of sampleEnv sampleStats
        "defaultOptions\<lparr>show_keys := [''reviews'', ''prs_merged''], hide := [''commits'', ''issues'']\<rparr>"]
  by (simp add: defaultOptions_def specRowKeys_def canonicalKeys_def alwaysKeys_def)

subsection \<open>The progress arc\<close>

lemma ccp_clamp:
  "calculateCircleProgress v = ((100 - max 0 (min v 100)) / 100) * (2 * pi * 40)"
  by (simp add: calculateCircleProgress_def Let_def max_def min_def)

text \<open>
  Claim C5. With C = 2 pi 40, \<open>calculateCircleProgress v\<close> is
  ((100 - clamp(v, 0, 100)) / 100) C, and with progress = 100 - percentile the arc offset
  of a smaller percentile is at most the arc offset of a larger one, for all percentiles,
  also those outside [0, 100].
\<close>

theorem arc_offset_monotone:
  "calculateCircleProgress v = ((100 - max 0 (min v 100)) / 100) * (2 * pi * 40)
   \<and> (percentile (rank s1) < percentile (rank s2) \<longrightarrow>
        calculateCircleProgress (progressOf s1) \<le> calculateCircleProgress (progressOf s2))"
proof -
  have mono: "calculateCircleProgress a \<le> calculateCircleProgress b" if "b \<le> a" for a b
  proof -
    have "max 0 (min b 100) \<le> max 0 (min a 100)" using that by auto
    then have "(100 - max 0 (min a 100)) / 100 \<le> (100 - max 0 (min b 100)) / 100" by simp
    then have "(100 - max 0 (min a 100)) / 100 * (2 * pi * 40)
             \<le> (100 - max 0 (min b 100)) / 100 * (2 * pi * 40)"
      by (rule mult_right_mono) simp
    then show ?thesis by (simp only: ccp_clamp)
  qed
  show ?thesis
    by (rule conjI, rule ccp_clamp) (auto simp add: progressOf_def intro!: mono)
qed

theorem arc_offset_monotone_witness:
  "percentile (rank (sampleStats\<lparr>rank := \<lparr>level = ''S'', percentile = - 10\<rparr>\<rparr>))
     < percentile (rank (sampleStats\<lparr>rank := \<lparr>level = ''C'', percentile = 150\<rparr>\<rparr>))
   \<and> calculateCircleProgress (progressOf (sampleStats\<lparr>rank := \<lparr>level = ''S'', percentile = - 10\<rparr>\<rparr>))
     \<le> calculateCircleProgress (progressOf (sampleStats\<lparr>rank := \<lparr>level = ''C'', percentile = 150\<rparr>\<rparr>))"
  using arc_offset_monotone [of 0 "sampleStats\<lparr>rank := \<lparr>level = ''S'', percentile = - 10\<rparr>\<rparr>"
        "sampleStats\<lparr>rank := \<lparr>level = ''C'', percentile = 150\<rparr>\<rparr>"]
  by simp

text \<open>
  Claim C10. For every real \<open>v\<close>, \<open>calculateCircleProgress v\<close> lies in [0, 2 pi 40];
  an input below 0 gives the result of 0 and an input above 100 the result of 100; so both
  offsets written into the keyframe block by \<open>getProgressAnimation\<close> lie within the
  circumference.
\<close>

theorem circle_progress_bounds:
  "0 \<le> calculateCircleProgress v \<and> calculateCircleProgress v \<le> 2 * pi * 40
   \<and> (v < 0 \<longrightarrow> calculateCircleProgress v = calculateCircleProgress 0)
   \<and> (100 < v \<longrightarrow> calculateCircleProgress v = calculateCircleProgress 100)
   \<and> (\<exists>a b. 0 \<le> a \<and> a \<le> 2 * pi * 40 \<and> 0 \<le> b \<and> b \<le> 2 * pi * 40
         \<and> getProgressAnimation e v =
             ''@keyframes rankAnimation { from { stroke-dashoffset: '' @ numberToString e a
             @ ''; } to { stroke-dashoffset: '' @ numberToString e b @ ''; } }'')"
proof -
  have lo: "0 \<le> calculateCircleProgress x" for x
    by (simp add: ccp_clamp)
  have hi: "calculateCircleProgress x \<le> 2 * pi * 40" for x
  proof -
    have "(100 - max 0 (min x 100)) / 100 * (2 * pi * 40) \<le> 1 * (2 * pi * 40)"
      by (rule mult_right_mono) auto
    then show ?thesis by (simp add: ccp_clamp)
  qed
  have below: "v < 0 \<longrightarrow> calculateCircleProgress v = calculateCircleProgress 0"
    by (simp add: calculateCircleProgress_def)
  have above: "100 < v \<longrightarrow> calculateCircleProgress v = calculateCircleProgress 100"
    by (simp add: calculateCircleProgress_def)
  have anim: "\<exists>a b. 0 \<le> a \<and> a \<le> 2 * pi * 40 \<and> 0 \<le> b \<and> b \<le> 2 * pi * 40
         \<and> getProgressAnimation e v =
             ''@keyframes rankAnimation { from { stroke-dashoffset: '' @ numberToString e a
             @ ''; } to { stroke-dashoffset: '' @ numberToString e b @ ''; } }''"
    apply (rule exI [of _ "calculateCircleProgress 0"])
    apply (rule exI [of _ "calculateCircleProgress v"])
    using lo hi by (simp add: getProgressAnimation_def)
  from lo hi below above anim show ?thesis by blast
qed

theorem circle_progress_bounds_witness:
  "(- 10 :: real) < 0 \<and> calculateCircleProgress (- 10) = calculateCircleProgress 0
   \<and> (100 :: real) < 150 \<and> calculateCircleProgress 150 = calculateCircleProgress 100
   \<and> 0 \<le> calculateCircleProgress 150 \<and> calculateCircleProgress (- 10) \<le> 2 * pi * 40"
  using circle_progress_bounds [of "- 10" sampleEnv] circle_progress_bounds [of 150 sampleEnv]
  by simp

subsection \<open>The one failure\<close>

lemma statItems_empty_iff:
  "(statItems e stats opts = []) = (specRowKeys (show_keys opts) (hide opts) = [])"
  using rowCount_keys [of e stats opts] unfolding rowCount_def
  by (metis length_0_conv)

text \<open>
  Claim C1. \<open>renderStatsCard\<close> fails exactly when no statistic row survives the
  \<^verbatim>\<open>show\<close> and \<^verbatim>\<open>hide\<close> filters and \<^verbatim>\<open>hide_rank\<close> is set; the error is then
  the \<^verbatim>\<open>CustomError\<close> of line 389. In every other case it returns markup. Hiding all
  canonical keys fails with \<^verbatim>\<open>hide_rank\<close> set and succeeds with it unset. The
  collaborators are total functions here.
\<close>

theorem render_error_iff:
  "((\<exists>err. renderStatsCard e stats opts = Inl err)
      = (specRowKeys (show_keys opts) (hide opts) = [] \<and> hide_rank opts))
   \<and> ((renderStatsCard e stats opts
         = Inl (CustomError ''Could not render stats card.'' ''Either stats or rank are required.''))
      = (specRowKeys (show_keys opts) (hide opts) = [] \<and> hide_rank opts))
   \<and> ((\<exists>markup. renderStatsCard e stats opts = Inr markup)
      = (\<not> (specRowKeys (show_keys opts) (hide opts) = [] \<and> hide_rank opts)))
   \<and> (\<exists>err. renderStatsCard e stats (opts\<lparr>hide := canonicalKeys, hide_rank := True\<rparr>) = Inl err)
   \<and> (\<exists>markup. renderStatsCard e stats (opts\<lparr>hide := canonicalKeys, hide_rank := False\<rparr>)
         = Inr markup)"
proof -
  have empty: "specRowKeys shown canonicalKeys = []" for shown
    by (simp add: specRowKeys_def canonicalKeys_def)
  show ?thesis
    by (simp add: renderStatsCard_def statItems_empty_iff empty)
qed

theorem render_error_iff_witness:
  "renderStatsCard sampleEnv sampleStats
       (defaultOptions\<lparr>hide := canonicalKeys, hide_rank := True\<rparr>)
     = Inl (CustomError ''Could not render stats card.'' ''Either stats or rank are required.'')
   \<and> (\<exists>markup. renderStatsCard sampleEnv sampleStats
       (defaultOptions\<lparr>hide := [''stars''], hide_rank := True\<rparr>) = Inr markup)"
  using render_error_iff [of sampleEnv sampleStats "defaultOptions\<lparr>hide := canonicalKeys, hide_rank := True\<rparr>"]
    render_error_iff [of sampleEnv sampleStats "defaultOptions\<lparr>hide := [''stars''], hide_rank := True\<rparr>"]
  by (simp add: specRowKeys_def canonicalKeys_def alwaysKeys_def defaultOptions_def)

subsection \<open>Width\<close>

lemma sample_rowCount_default: "rowCount e stats defaultOptions = 5"
  by (simp add: rowCount_keys defaultOptions_def specRowKeys_def canonicalKeys_def alwaysKeys_def)

lemma rowCount_card_width:
  "rowCount e stats (opts\<lparr>card_width := x\<rparr>) = rowCount e stats opts"
  by (simp add: rowCount_keys)

lemma minCardWidth_card_width:
  "minCardWidth e stats (opts\<lparr>card_width := x\<rparr>) n = minCardWidth e stats opts n"
  by (simp add: minCardWidth_def calculateTextWidth_def defaultTitleOf_def i18n_def
        iconWidth_def split: option.split)

lemma defaultCardWidth_card_width:
  "defaultCardWidth (opts\<lparr>card_width := x\<rparr>) n = defaultCardWidth opts n"
  by (simp add: defaultCardWidth_def iconWidth_def)

lemma widthOf_card_width:
  "widthOf e stats (opts\<lparr>card_width := x\<rparr>) =
     finalWidth x (defaultCardWidth opts (rowCount e stats opts))
       (minCardWidth e stats opts (rowCount e stats opts))"
  by (simp add: widthOf_def rowCount_card_width minCardWidth_card_width
        defaultCardWidth_card_width)

lemma min_le_default_rank_shown:
  "\<not> hide_rank opts \<Longrightarrow> minCardWidth e stats opts n \<le> defaultCardWidth opts n"
  by (simp add: minCardWidth_def defaultCardWidth_def RANK_CARD_MIN_WIDTH_def
        RANK_CARD_DEFAULT_WIDTH_def RANK_ONLY_CARD_MIN_WIDTH_def
        RANK_ONLY_CARD_DEFAULT_WIDTH_def)

lemma default_le_min_rank_hidden:
  "hide_rank opts \<Longrightarrow> defaultCardWidth opts n \<le> minCardWidth e stats opts n"
  by (simp add: minCardWidth_def defaultCardWidth_def clampValue_def CARD_MIN_WIDTH_def
        CARD_DEFAULT_WIDTH_def)

text \<open>
  Claim C2 as stated fails at two inputs. With the rank shown and five rows, the width 0
  is a number below the minimum 420, and the final width is 450. With the rank hidden, a
  NaN width and a title of 43 characters, the default width is 287 and the final width
  is the minimum 480.
\<close>

theorem final_width_counterexample:
  "card_width zeroWidthOptions = Number 0
   \<and> 0 < minCardWidth sampleEnv sampleStats zeroWidthOptions
            (rowCount sampleEnv sampleStats zeroWidthOptions)
   \<and> widthOf sampleEnv sampleStats zeroWidthOptions
       \<noteq> minCardWidth sampleEnv sampleStats zeroWidthOptions
            (rowCount sampleEnv sampleStats zeroWidthOptions)
   \<and> minCardWidth sampleEnv sampleStats zeroWidthOptions
        (rowCount sampleEnv sampleStats zeroWidthOptions) = 420
   \<and> widthOf sampleEnv sampleStats zeroWidthOptions = 450
   \<and> card_width longTitleOptions = NaN
   \<and> widthOf sampleEnv sampleStats longTitleOptions
       \<noteq> defaultCardWidth longTitleOptions (rowCount sampleEnv sampleStats longTitleOptions)
   \<and> defaultCardWidth longTitleOptions (rowCount sampleEnv sampleStats longTitleOptions) = 287
   \<and> widthOf sampleEnv sampleStats longTitleOptions = 480"
proof -
  have n1: "rowCount sampleEnv sampleStats zeroWidthOptions = 5"
    by (simp add: zeroWidthOptions_def rowCount_card_width sample_rowCount_default)
  have n2: "rowCount sampleEnv sampleStats longTitleOptions = 5"
    by (simp add: rowCount_keys longTitleOptions_def defaultOptions_def specRowKeys_def
          canonicalKeys_def alwaysKeys_def)
  have m1: "minCardWidth sampleEnv sampleStats zeroWidthOptions 5 = 420"
    by (simp add: minCardWidth_def iconWidth_def zeroWidthOptions_def defaultOptions_def
          RANK_CARD_MIN_WIDTH_def)
  have d1: "defaultCardWidth zeroWidthOptions 5 = 450"
    by (simp add: defaultCardWidth_def iconWidth_def zeroWidthOptions_def defaultOptions_def
          RANK_CARD_DEFAULT_WIDTH_def)
  have c1: "card_width zeroWidthOptions = Number 0"
    by (simp add: zeroWidthOptions_def)
  have w1: "widthOf sampleEnv sampleStats zeroWidthOptions = 450"
    by (simp add: widthOf_def n1 m1 d1 c1 finalWidth_def truthy_def)
  have m2: "minCardWidth sampleEnv sampleStats longTitleOptions 5 = 480"
    by (simp add: minCardWidth_def calculateTextWidth_def iconWidth_def longTitleOptions_def
          defaultOptions_def clampValue_def CARD_MIN_WIDTH_def sampleEnv_def)
  have d2: "defaultCardWidth longTitleOptions 5 = 287"
    by (simp add: defaultCardWidth_def iconWidth_def longTitleOptions_def defaultOptions_def
          CARD_DEFAULT_WIDTH_def)
  have c2: "card_width longTitleOptions = NaN"
    by (simp add: longTitleOptions_def)
  have w2: "widthOf sampleEnv sampleStats longTitleOptions = 480"
    by (simp add: widthOf_def n2 m2 d2 c2 finalWidth_def truthy_def)
  from n1 n2 m1 d2 c1 c2 w1 w2 show ?thesis by simp
qed

text \<open>
  Claim C2, as the code has it. A \<^verbatim>\<open>card_width\<close> that is a number other than 0 and at
  least the computed minimum is the final width; one that is a number other than 0 and
  below the minimum gives the minimum; an absent or NaN \<^verbatim>\<open>card_width\<close> gives the
  larger of the default width of the mode and the computed minimum, which is the default
  in the two modes that show the rank and the minimum when the rank is hidden. The final
  width is never below the computed minimum.
\<close>

theorem final_width_policy:
  "(card_width opts = Number r \<and> r \<noteq> 0 \<and> minCardWidth e stats opts (rowCount e stats opts) \<le> r
      \<longrightarrow> widthOf e stats opts = r)
   \<and> (card_width opts = Number r \<and> r \<noteq> 0 \<and> r < minCardWidth e stats opts (rowCount e stats opts)
      \<longrightarrow> widthOf e stats opts = minCardWidth e stats opts (rowCount e stats opts))
   \<and> (card_width opts = Undefined \<or> card_width opts = NaN
      \<longrightarrow> widthOf e stats opts
            = max (defaultCardWidth opts (rowCount e stats opts))
                  (minCardWidth e stats opts (rowCount e stats opts)))
   \<and> (\<not> hide_rank opts
      \<longrightarrow> max (defaultCardWidth opts (rowCount e stats opts))
                (minCardWidth e stats opts (rowCount e stats opts))
            = defaultCardWidth opts (rowCount e stats opts))
   \<and> (hide_rank opts
      \<longrightarrow> max (defaultCardWidth opts (rowCount e stats opts))
                (minCardWidth e stats opts (rowCount e stats opts))
            = minCardWidth e stats opts (rowCount e stats opts))
   \<and> minCardWidth e stats opts (rowCount e stats opts) \<le> widthOf e stats opts"
proof -
  have a: "\<not> hide_rank opts
      \<longrightarrow> max (defaultCardWidth opts (rowCount e stats opts))
                (minCardWidth e stats opts (rowCount e stats opts))
            = defaultCardWidth opts (rowCount e stats opts)"
    using min_le_default_rank_shown [of opts e stats "rowCount e stats opts"] by auto
  have b: "hide_rank opts
      \<longrightarrow> max (defaultCardWidth opts (rowCount e stats opts))
                (minCardWidth e stats opts (rowCount e stats opts))
            = minCardWidth e stats opts (rowCount e stats opts)"
    using default_le_min_rank_hidden [of opts "rowCount e stats opts" e stats] by auto
  have c: "minCardWidth e stats opts (rowCount e stats opts) \<le> widthOf e stats opts"
    by (simp add: widthOf_def finalWidth_def Let_def)
  have d: "card_width opts = Number r \<and> r \<noteq> 0 \<and> minCardWidth e stats opts (rowCount e stats opts) \<le> r
      \<longrightarrow> widthOf e stats opts = r"
    by (simp add: widthOf_def finalWidth_def truthy_def isNaN_def)
  have f: "card_width opts = Number r \<and> r \<noteq> 0 \<and> r < minCardWidth e stats opts (rowCount e stats opts)
      \<longrightarrow> widthOf e stats opts = minCardWidth e stats opts (rowCount e stats opts)"
    by (simp add: widthOf_def finalWidth_def truthy_def isNaN_def)
  have g: "card_width opts = Undefined \<or> card_width opts = NaN
      \<longrightarrow> widthOf e stats opts
            = max (defaultCardWidth opts (rowCount e stats opts))
                  (minCardWidth e stats opts (rowCount e stats opts))"
    by (auto simp add: widthOf_def finalWidth_def truthy_def isNaN_def max_def Let_def)
  from a b c d f g show ?thesis by blast
qed

theorem final_width_policy_witness:
  "card_width (defaultOptions\<lparr>card_width := Number 500\<rparr>) = Number 500
   \<and> (500 :: real) \<noteq> 0
   \<and> minCardWidth sampleEnv sampleStats (defaultOptions\<lparr>card_width := Number 500\<rparr>)
         (rowCount sampleEnv sampleStats (defaultOptions\<lparr>card_width := Number 500\<rparr>)) \<le> 500
   \<and> widthOf sampleEnv sampleStats (defaultOptions\<lparr>card_width := Number 500\<rparr>) = 500
   \<and> card_width (defaultOptions\<lparr>card_width := Number 1\<rparr>) = Number 1
   \<and> (1 :: real) \<noteq> 0
   \<and> 1 < minCardWidth sampleEnv sampleStats (defaultOptions\<lparr>card_width := Number 1\<rparr>)
         (rowCount sampleEnv sampleStats (defaultOptions\<lparr>card_width := Number 1\<rparr>))
   \<and> widthOf sampleEnv sampleStats (defaultOptions\<lparr>card_width := Number 1\<rparr>) = 420
   \<and> card_width defaultOptions = Undefined \<and> \<not> hide_rank defaultOptions
   \<and> widthOf sampleEnv sampleStats defaultOptions = 450
   \<and> card_width longTitleOptions = NaN \<and> hide_rank longTitleOptions
   \<and> widthOf sampleEnv sampleStats longTitleOptions = 480"
proof -
  have n: "rowCount sampleEnv sampleStats (defaultOptions\<lparr>card_width := x\<rparr>) = 5" for x
    by (simp add: rowCount_card_width sample_rowCount_default)
  have m: "minCardWidth sampleEnv sampleStats (defaultOptions\<lparr>card_width := x\<rparr>) 5 = 420" for x
    by (simp add: minCardWidth_def iconWidth_def defaultOptions_def RANK_CARD_MIN_WIDTH_def)
  have n0: "rowCount sampleEnv sampleStats defaultOptions = 5"
    by (rule sample_rowCount_default)
  have m0: "minCardWidth sampleEnv sampleStats defaultOptions 5 = 420"
    by (simp add: minCardWidth_def iconWidth_def defaultOptions_def RANK_CARD_MIN_WIDTH_def)
  have d0: "defaultCardWidth defaultOptions 5 = 450"
    by (simp add: defaultCardWidth_def iconWidth_def defaultOptions_def
          RANK_CARD_DEFAULT_WIDTH_def)
  have c0: "card_width defaultOptions = Undefined" "\<not> hide_rank defaultOptions"
    by (simp_all add: defaultOptions_def)
  have n2: "rowCount sampleEnv sampleStats longTitleOptions = 5"
    by (simp add: rowCount_keys longTitleOptions_def defaultOptions_def specRowKeys_def
          canonicalKeys_def alwaysKeys_def)
  have m2: "minCardWidth sampleEnv sampleStats longTitleOptions 5 = 480"
    by (simp add: minCardWidth_def calculateTextWidth_def iconWidth_def longTitleOptions_def
          defaultOptions_def clampValue_def CARD_MIN_WIDTH_def sampleEnv_def)
  have c2: "card_width longTitleOptions = NaN" "hide_rank longTitleOptions"
    by (simp_all add: longTitleOptions_def)
  have A: "widthOf sampleEnv sampleStats (defaultOptions\<lparr>card_width := Number 500\<rparr>) = 500"
    using final_width_policy [of "defaultOptions\<lparr>card_width := Number 500\<rparr>" 500
        sampleEnv sampleStats]
    by (simp add: n m)
  have B: "widthOf sampleEnv sampleStats (defaultOptions\<lparr>card_width := Number 1\<rparr>) = 420"
    using final_width_policy [of "defaultOptions\<lparr>card_width := Number 1\<rparr>" 1
        sampleEnv sampleStats]
    by (simp add: n m)
  have C: "widthOf sampleEnv sampleStats defaultOptions = 450"
    using final_width_policy [of defaultOptions 0 sampleEnv sampleStats] c0
    by (simp add: n0 m0 d0)
  have D: "widthOf sampleEnv sampleStats longTitleOptions = 480"
    using final_width_policy [of longTitleOptions 0 sampleEnv sampleStats] c2
    by (simp add: n2 m2)
  from A B C D c0 c2 show ?thesis by (simp add: n m)
qed

text \<open>
  Claim C9. A \<^verbatim>\<open>card_width\<close> of 0 is treated as an absent one: the final width is the
  default width of the mode, raised to the minimum where the minimum is larger. With the
  rank shown and rows present the default is 450 + iconWidth and the minimum
  420 + iconWidth, so the widths 0 and 1 give different final widths.
\<close>

theorem zero_width_is_absent:
  "widthOf e stats (opts\<lparr>card_width := Number 0\<rparr>)
     = widthOf e stats (opts\<lparr>card_width := Undefined\<rparr>)
   \<and> widthOf e stats (opts\<lparr>card_width := Number 0\<rparr>)
     = max (defaultCardWidth opts (rowCount e stats opts))
           (minCardWidth e stats opts (rowCount e stats opts))
   \<and> (\<not> hide_rank opts \<and> rowCount e stats opts > 0 \<longrightarrow>
        widthOf e stats (opts\<lparr>card_width := Number 0\<rparr>)
          = 450 + iconWidth opts (rowCount e stats opts)
        \<and> widthOf e stats (opts\<lparr>card_width := Number 1\<rparr>)
          = 420 + iconWidth opts (rowCount e stats opts)
        \<and> widthOf e stats (opts\<lparr>card_width := Number 0\<rparr>)
          \<noteq> widthOf e stats (opts\<lparr>card_width := Number 1\<rparr>))"
  by (simp add: widthOf_card_width finalWidth_def truthy_def isNaN_def max_def
        minCardWidth_def defaultCardWidth_def iconWidth_def RANK_CARD_MIN_WIDTH_def
        RANK_CARD_DEFAULT_WIDTH_def)

theorem zero_width_is_absent_witness:
  "\<not> hide_rank defaultOptions \<and> rowCount sampleEnv sampleStats defaultOptions > 0
   \<and> widthOf sampleEnv sampleStats (defaultOptions\<lparr>card_width := Number 0\<rparr>) = 450
   \<and> widthOf sampleEnv sampleStats (defaultOptions\<lparr>card_width := Number 1\<rparr>) = 420"
proof -
  have h: "\<not> hide_rank defaultOptions" by (simp add: defaultOptions_def)
  have n: "rowCount sampleEnv sampleStats defaultOptions = 5"
    by (rule sample_rowCount_default)
  have i: "iconWidth defaultOptions 5 = 0"
    by (simp add: iconWidth_def defaultOptions_def)
  show ?thesis
    using zero_width_is_absent [of sampleEnv sampleStats defaultOptions] h
    by (simp add: n i)
qed

subsection \<open>Height\<close>

lemma parseInt10_25: "parseInt10 ''25'' = Some 25"
  by (simp add: parseInt10_def isWhiteSpace1_def isWhiteSpace2_def isDigit_def Let_def)

lemma of_char_digit: "d < 10 \<Longrightarrow> (of_char (char_of (48 + d :: nat) :: char) :: nat) = 48 + d"
  by simp

lemma isDigit_char_of: "d < 10 \<Longrightarrow> isDigit (char_of (48 + d :: nat))"
  by (simp add: isDigit_def)

lemma parseDigits_append:
  "\<forall>c \<in> set s. isDigit c \<Longrightarrow> parseDigits acc (s @ t) = parseDigits (parseDigits acc s) t"
  by (induction s arbitrary: acc) auto

lemma natString_digits: "\<forall>c \<in> set (natString n). isDigit c"
proof (induction n rule: natString.induct)
  case (1 n)
  show ?case
  proof (cases "n < 10")
    case True
    then show ?thesis by (simp add: natString.simps [of n] isDigit_char_of)
  next
    case False
    then have "\<forall>c \<in> set (natString (n div 10)). isDigit c" using 1 by simp
    moreover have "isDigit (char_of (48 + n mod 10))" by (rule isDigit_char_of) simp
    ultimately show ?thesis using False by (simp add: natString.simps [of n])
  qed
qed

lemma natString_nonempty: "natString n \<noteq> []"
  by (simp add: natString.simps [of n])

lemma parseDigits_natString: "parseDigits 0 (natString n) = n"
proof (induction n rule: natString.induct)
  case (1 n)
  show ?case
  proof (cases "n < 10")
    case True
    then show ?thesis by (simp add: natString.simps [of n] isDigit_char_of)
  next
    case False
    then have ih: "parseDigits 0 (natString (n div 10)) = n div 10" using 1 by simp
    have d: "isDigit (char_of (48 + n mod 10))" by (rule isDigit_char_of) simp
    have "parseDigits 0 (natString n)
        = parseDigits (parseDigits 0 (natString (n div 10))) [char_of (48 + n mod 10)]"
      using False by (simp add: natString.simps [of n] parseDigits_append natString_digits)
    also have "\<dots> = 10 * (n div 10) + n mod 10"
      using d by (simp add: ih)
    finally show ?thesis by simp
  qed
qed

lemma skipWhiteSpace_digit: "s \<noteq> [] \<Longrightarrow> isDigit (hd s) \<Longrightarrow> skipWhiteSpace s = s"
  by (cases s rule: skipWhiteSpace.cases)
     (auto simp add: isDigit_def isWhiteSpace1_def isWhiteSpace2_def isWhiteSpace3_def Let_def)

lemma parseInt10_natString: "parseInt10 (natString n) = Some (real n)"
proof -
  have ne: "natString n \<noteq> []" by (rule natString_nonempty)
  then have hd_in: "hd (natString n) \<in> set (natString n)" by simp
  then have dg: "isDigit (hd (natString n))" using natString_digits by blast
  have drop: "skipWhiteSpace (natString n) = natString n"
    using ne dg by (rule skipWhiteSpace_digit)
  have sign: "hd (natString n) \<noteq> CHR ''-''" "hd (natString n) \<noteq> CHR ''+''"
    using dg by (auto simp add: isDigit_def)
  show ?thesis
    using ne dg sign by (simp add: parseInt10_def drop Let_def parseDigits_natString)
qed

text \<open>
  Claim C3. With \<open>n\<close> rows and the line height \<open>L\<close> that line 246 reads from the
  option \<^verbatim>\<open>line_height\<close>, the card height is max(45 + (n + 1) L, m), where m is 0
  when the rank is hidden, 150 when the rank is shown and there are rows, and 180 when the
  rank is shown and there are none. When the option is the decimal text of a natural
  number, \<open>L\<close> is that number. With L = 25 and the rank shown, three rows give 150 and six
  rows give 220.
\<close>

theorem card_height_formula:
  "(lheight e opts = Some L \<longrightarrow>
      heightOf e stats opts =
        Some (max (45 + (real (rowCount e stats opts) + 1) * L)
                  (if hide_rank opts then 0 else if rowCount e stats opts > 0 then 150 else 180)))
   \<and> heightOf e stats (opts\<lparr>line_height := Str (natString k)\<rparr>) =
        Some (max (45 + (real (rowCount e stats opts) + 1) * real k)
                  (if hide_rank opts then 0 else if rowCount e stats opts > 0 then 150 else 180))
   \<and> (lheight e opts = Some 25 \<and> rowCount e stats opts = 3 \<and> \<not> hide_rank opts \<longrightarrow>
        heightOf e stats opts = Some 150)
   \<and> (lheight e opts = Some 25 \<and> rowCount e stats opts = 6 \<and> \<not> hide_rank opts \<longrightarrow>
        heightOf e stats opts = Some 220)"
  by (simp add: heightOf_def cardHeight_def lheight_def jsString_def parseInt10_natString
        rowCount_keys)

theorem card_height_formula_witness:
  "lheight sampleEnv (defaultOptions\<lparr>line_height := Str ''25'', hide := [''issues'', ''contribs'']\<rparr>) = Some 25
   \<and> rowCount sampleEnv sampleStats (defaultOptions\<lparr>line_height := Str ''25'', hide := [''issues'', ''contribs'']\<rparr>) = 3
   \<and> \<not> hide_rank (defaultOptions\<lparr>line_height := Str ''25'', hide := [''issues'', ''contribs'']\<rparr>)
   \<and> heightOf sampleEnv sampleStats (defaultOptions\<lparr>line_height := Str ''25'', hide := [''issues'', ''contribs'']\<rparr>) = Some 150"
  using card_height_formula [where e = sampleEnv and stats = sampleStats and L = 25
      and opts = "defaultOptions\<lparr>line_height := Str ''25'', hide := [''issues'', ''contribs'']\<rparr>"]
  by (simp add: lheight_def jsString_def parseInt10_25 rowCount_keys defaultOptions_def
        specRowKeys_def canonicalKeys_def alwaysKeys_def)

subsection \<open>Placement of the rank circle\<close>

text \<open>
  Claim C6. The horizontal translation of the rank circle is width / 2 + 10 when there
  are no rows; with rows it is minXTranslation + (width - minCardWidth) / 2 when the final
  width is at most 450 and minXTranslation + (450 - minCardWidth) / 2 + (width - 450)
  when it exceeds 450, where minXTranslation = 420 + iconWidth - 70. When the rank is
  shown, this number is the first argument of \<^verbatim>\<open>translate\<close> in the markup of the circle.
\<close>

theorem rank_x_translation:
  "rankXOf e stats opts =
     (let n = rowCount e stats opts;
          w = widthOf e stats opts;
          minW = minCardWidth e stats opts n;
          minXTranslation = 420 + iconWidth opts n - 70
      in if n = 0 then w / 2 + 10
         else if w \<le> 450 then minXTranslation + (w - minW) / 2
         else minXTranslation + (450 - minW) / 2 + (w - 450))
   \<and> (\<not> hide_rank opts \<longrightarrow>
        (\<exists>rest. rankCircle e stats opts =
           ''<g data-testid=\"rank-circle\" transform=\"translate(''
           @ numberToString e (rankXOf e stats opts) @ rest))"
  by (simp add: rankXOf_def calculateRankXTranslation_def rankCircle_def Let_def
        RANK_CARD_MIN_WIDTH_def RANK_CARD_DEFAULT_WIDTH_def)

theorem rank_x_translation_witness:
  "\<not> hide_rank defaultOptions
   \<and> rankXOf sampleEnv sampleStats defaultOptions = 365
   \<and> (\<exists>rest. rankCircle sampleEnv sampleStats defaultOptions =
           ''<g data-testid=\"rank-circle\" transform=\"translate(''
           @ numberToString sampleEnv (rankXOf sampleEnv sampleStats defaultOptions) @ rest)"
proof -
  have n: "rowCount sampleEnv sampleStats defaultOptions = 5"
    by (rule sample_rowCount_default)
  have h: "\<not> hide_rank defaultOptions" by (simp add: defaultOptions_def)
  have m: "minCardWidth sampleEnv sampleStats defaultOptions 5 = 420"
    by (simp add: minCardWidth_def iconWidth_def defaultOptions_def RANK_CARD_MIN_WIDTH_def)
  have w: "widthOf sampleEnv sampleStats defaultOptions = 450"
    by (simp add: widthOf_def n m finalWidth_def truthy_def defaultCardWidth_def iconWidth_def
          RANK_CARD_DEFAULT_WIDTH_def) (simp add: defaultOptions_def)
  have i: "iconWidth defaultOptions 5 = 0"
    by (simp add: iconWidth_def defaultOptions_def)
  have a: "rankXOf sampleEnv sampleStats defaultOptions = 365"
    using rank_x_translation [of sampleEnv sampleStats defaultOptions, THEN conjunct1]
    by (simp add: n m w i)
  have b: "\<exists>rest. rankCircle sampleEnv sampleStats defaultOptions =
           ''<g data-testid=\"rank-circle\" transform=\"translate(''
           @ numberToString sampleEnv (rankXOf sampleEnv sampleStats defaultOptions) @ rest"
    using rank_x_translation [of sampleEnv sampleStats defaultOptions, THEN conjunct2] h
    by blast
  from h a b show ?thesis by blast
qed

subsection \<open>Shift of the value text for long locales\<close>

lemma valueX_rows:
  "map valueX (statItemParams e stats opts) =
     replicate (length (specRowKeys (show_keys opts) (hide opts)))
       ((if show_icons opts then 140 else 120) + (79.01 + (if isLongLocale opts then 50 else 0)))"
proof -
  have "map valueX (statItemParams e stats opts)
      = map (\<lambda>ke. (if show_icons opts then 140 else 120)
                     + (79.01 + (if isLongLocale opts then 50 else 0)))
            (enumerate 0 (visibleStats e stats opts))"
    by (simp add: statItemParams_def valueX_def case_prod_unfold comp_def)
  then show ?thesis
    by (simp add: map_replicate_const length_visibleStats)
qed

lemma isLongLocale_iff:
  "isLongLocale (opts\<lparr>locale_opt := Some l\<rparr>) = (l \<in> set longLocales)"
  by (auto simp add: isLongLocale_def longLocales_def)

lemma createTextNode_value_text:
  "\<exists>pre post. createTextNode e p =
      pre @ ''<text class=\"stat '' @ (if bold p then '' bold'' else ''not_bold'')
      @ ''\" x=\"'' @ numberToString e (valueX p)
      @ ''\" y=\"12.5\" data-testid=\"'' @ stat_id p @ ''\">'' @ post"
proof -
  let ?pre = "''<g class=\"stagger\" style=\"animation-delay: '' @ numberToString e (staggerDelay p)
         @ ''ms\" transform=\"translate(25, 0)\">''
         @ (if showIcons p
            then ''<svg data-testid=\"icon\" class=\"icon\" viewBox=\"0 0 16 16\" version=\"1.1\" width=\"16\" height=\"16\">''
                 @ icon p @ ''</svg>''
            else '''')
         @ ''<text class=\"stat '' @ (if bold p then '' bold'' else ''not_bold'') @ ''\" ''
         @ (if showIcons p then ''x=\"25\"'' else '''') @ '' y=\"12.5\">'' @ label p @ '':</text>''"
  let ?post = "jsString e (kValue e p)
         @ (case unitSymbol p of None \<Rightarrow> ''''
            | Some u \<Rightarrow> if u = [] then '''' else '' '' @ u)
         @ ''</text></g>''"
  have "createTextNode e p =
      ?pre @ ''<text class=\"stat '' @ (if bold p then '' bold'' else ''not_bold'')
      @ ''\" x=\"'' @ numberToString e (valueX p)
      @ ''\" y=\"12.5\" data-testid=\"'' @ stat_id p @ ''\">'' @ ?post"
    by (simp add: createTextNode_def Let_def)
  then show ?thesis by blast
qed

lemma statItemParams_nth_fields:
  "i < length (statItemParams e stats opts) \<Longrightarrow>
     bold (statItemParams e stats opts ! i) = text_bold opts
     \<and> showIcons (statItemParams e stats opts ! i) = show_icons opts
     \<and> stat_id (statItemParams e stats opts ! i) = specRowKeys (show_keys opts) (hide opts) ! i"
proof -
  assume i: "i < length (statItemParams e stats opts)"
  then have iv: "i < length (visibleStats e stats opts)"
    by (simp add: statItemParams_def)
  have a: "bold (statItemParams e stats opts ! i) = text_bold opts"
       "showIcons (statItemParams e stats opts ! i) = show_icons opts"
    using iv by (simp_all add: statItemParams_def nth_enumerate_eq case_prod_unfold)
  have "stat_id (statItemParams e stats opts ! i) = map stat_id (statItemParams e stats opts) ! i"
    using i by simp
  also have "\<dots> = specRowKeys (show_keys opts) (hide opts) ! i"
    by (simp only: statItemParams_stat_id visibleStats_keys)
  finally show ?thesis using a by simp
qed

lemma statItems_nth_markup:
  assumes "i < length (statItems e stats opts)"
  shows "\<exists>pre post. statItems e stats opts ! i =
      pre @ ''<text class=\"stat '' @ (if text_bold opts then '' bold'' else ''not_bold'')
      @ ''\" x=\"''
      @ numberToString e ((if show_icons opts then 140 else 120)
                          + (79.01 + (if isLongLocale opts then 50 else 0)))
      @ ''\" y=\"12.5\" data-testid=\"'' @ specRowKeys (show_keys opts) (hide opts) ! i
      @ ''\">'' @ post"
proof -
  let ?p = "statItemParams e stats opts ! i"
  have i: "i < length (statItemParams e stats opts)"
    using assms by (simp add: statItems_def)
  have item: "statItems e stats opts ! i = createTextNode e ?p"
    using i by (simp add: statItems_def)
  have "valueX ?p = map valueX (statItemParams e stats opts) ! i"
    using i by simp
  also have "\<dots> = (if show_icons opts then 140 else 120)
                      + (79.01 + (if isLongLocale opts then 50 else 0))"
    using i by (simp only: valueX_rows) (simp add: statItemParams_def length_visibleStats)
  finally have x: "valueX ?p = (if show_icons opts then 140 else 120)
                      + (79.01 + (if isLongLocale opts then 50 else 0))" .
  have f: "bold ?p = text_bold opts"
          "stat_id ?p = specRowKeys (show_keys opts) (hide opts) ! i"
    using statItemParams_nth_fields [OF i] by simp_all
  show ?thesis
    using createTextNode_value_text [of e ?p] by (simp only: item x f)
qed

text \<open>
  Claim C7. A locale is long exactly when it is in the list of line 351; an absent locale
  is not. For options that differ only in the locale, one long and the other not, the x
  position of the value text of every row under the long locale is the position under the
  other locale plus 50; under the other locale every row has the same position, 140 or
  120 (with or without icons) plus 79.01. These positions are the ones in the markup: both
  renders have the same number of rows, and row \<open>i\<close> of each contains the value text
  element of its key with that number as the \<^verbatim>\<open>x\<close> attribute; the rows are the text
  nodes of the row arguments, and a text node writes \<open>valueX\<close> of its argument there.
\<close>

theorem locale_shift:
  "isLongLocale (opts\<lparr>locale_opt := Some l\<rparr>) = (l \<in> set longLocales)
   \<and> \<not> isLongLocale (opts\<lparr>locale_opt := None\<rparr>)
   \<and> (isLongLocale (opts\<lparr>locale_opt := lo1\<rparr>) \<and> \<not> isLongLocale (opts\<lparr>locale_opt := lo2\<rparr>) \<longrightarrow>
       map valueX (statItemParams e stats (opts\<lparr>locale_opt := lo1\<rparr>))
         = map (\<lambda>p. valueX p + 50) (statItemParams e stats (opts\<lparr>locale_opt := lo2\<rparr>))
       \<and> (\<forall>p \<in> set (statItemParams e stats (opts\<lparr>locale_opt := lo2\<rparr>)).
             valueX p = (if show_icons opts then 140 else 120) + 79.01)
       \<and> (\<forall>p \<in> set (statItemParams e stats (opts\<lparr>locale_opt := lo1\<rparr>)).
             valueX p = (if show_icons opts then 140 else 120) + 79.01 + 50)
       \<and> length (statItems e stats (opts\<lparr>locale_opt := lo1\<rparr>))
           = length (statItems e stats (opts\<lparr>locale_opt := lo2\<rparr>))
       \<and> (\<forall>i < length (statItems e stats (opts\<lparr>locale_opt := lo2\<rparr>)).
             \<exists>pre1 post1 pre2 post2.
               statItems e stats (opts\<lparr>locale_opt := lo2\<rparr>) ! i =
                 pre2 @ ''<text class=\"stat '' @ (if text_bold opts then '' bold'' else ''not_bold'')
                 @ ''\" x=\"''
                 @ numberToString e ((if show_icons opts then 140 else 120) + 79.01)
                 @ ''\" y=\"12.5\" data-testid=\"'' @ specRowKeys (show_keys opts) (hide opts) ! i
                 @ ''\">'' @ post2
               \<and> statItems e stats (opts\<lparr>locale_opt := lo1\<rparr>) ! i =
                 pre1 @ ''<text class=\"stat '' @ (if text_bold opts then '' bold'' else ''not_bold'')
                 @ ''\" x=\"''
                 @ numberToString e ((if show_icons opts then 140 else 120) + 79.01 + 50)
                 @ ''\" y=\"12.5\" data-testid=\"'' @ specRowKeys (show_keys opts) (hide opts) ! i
                 @ ''\">'' @ post1))
   \<and> statItems e stats opts = map (createTextNode e) (statItemParams e stats opts)
   \<and> (\<exists>pre post. createTextNode e p =
         pre @ ''<text class=\"stat '' @ (if bold p then '' bold'' else ''not_bold'')
         @ ''\" x=\"'' @ numberToString e (valueX p)
         @ ''\" y=\"12.5\" data-testid=\"'' @ stat_id p @ ''\">'' @ post)"
proof (intro conjI impI)
  show "isLongLocale (opts\<lparr>locale_opt := Some l\<rparr>) = (l \<in> set longLocales)"
    by (rule isLongLocale_iff)
  show "\<not> isLongLocale (opts\<lparr>locale_opt := None\<rparr>)"
    by (simp add: isLongLocale_def)
  show "statItems e stats opts = map (createTextNode e) (statItemParams e stats opts)"
    by (simp add: statItems_def)
  show "\<exists>pre post. createTextNode e p =
         pre @ ''<text class=\"stat '' @ (if bold p then '' bold'' else ''not_bold'')
         @ ''\" x=\"'' @ numberToString e (valueX p)
         @ ''\" y=\"12.5\" data-testid=\"'' @ stat_id p @ ''\">'' @ post"
    by (rule createTextNode_value_text)
next
  let ?o1 = "opts\<lparr>locale_opt := lo1\<rparr>" and ?o2 = "opts\<lparr>locale_opt := lo2\<rparr>"
  let ?n = "length (specRowKeys (show_keys opts) (hide opts))"
  let ?b = "(if show_icons opts then 140 else 120) + 79.01 :: real"
  assume "isLongLocale ?o1 \<and> \<not> isLongLocale ?o2"
  then have l1: "isLongLocale ?o1" and l2: "\<not> isLongLocale ?o2" by simp_all
  have r1: "map valueX (statItemParams e stats ?o1) = replicate ?n (?b + 50)"
    using l1 by (simp add: valueX_rows)
  have r2: "map valueX (statItemParams e stats ?o2) = replicate ?n ?b"
    using l2 by (simp add: valueX_rows)
  have "map (\<lambda>p. valueX p + 50) (statItemParams e stats ?o2)
          = map (\<lambda>x. x + 50) (map valueX (statItemParams e stats ?o2))"
    by (simp add: comp_def)
  also have "\<dots> = replicate ?n (?b + 50)"
    by (simp only: r2 map_replicate)
  finally show "map valueX (statItemParams e stats ?o1)
       = map (\<lambda>p. valueX p + 50) (statItemParams e stats ?o2)"
    using r1 by simp
  show "\<forall>p \<in> set (statItemParams e stats ?o2). valueX p = ?b"
  proof
    fix p assume "p \<in> set (statItemParams e stats ?o2)"
    then have "valueX p \<in> set (map valueX (statItemParams e stats ?o2))" by simp
    then show "valueX p = ?b" by (simp only: r2) simp
  qed
  show "\<forall>p \<in> set (statItemParams e stats ?o1). valueX p = ?b + 50"
  proof
    fix p assume "p \<in> set (statItemParams e stats ?o1)"
    then have "valueX p \<in> set (map valueX (statItemParams e stats ?o1))" by simp
    then show "valueX p = ?b + 50" by (simp only: r1) simp
  qed
  have len1: "length (statItems e stats ?o1) = ?n"
    using rowCount_keys [of e stats ?o1] by (simp add: rowCount_def)
  have len2: "length (statItems e stats ?o2) = ?n"
    using rowCount_keys [of e stats ?o2] by (simp add: rowCount_def)
  show "length (statItems e stats ?o1) = length (statItems e stats ?o2)"
    by (simp only: len1 len2)
  show "\<forall>i < length (statItems e stats ?o2).
             \<exists>pre1 post1 pre2 post2.
               statItems e stats ?o2 ! i =
                 pre2 @ ''<text class=\"stat '' @ (if text_bold opts then '' bold'' else ''not_bold'')
                 @ ''\" x=\"''
                 @ numberToString e ?b
                 @ ''\" y=\"12.5\" data-testid=\"'' @ specRowKeys (show_keys opts) (hide opts) ! i
                 @ ''\">'' @ post2
               \<and> statItems e stats ?o1 ! i =
                 pre1 @ ''<text class=\"stat '' @ (if text_bold opts then '' bold'' else ''not_bold'')
                 @ ''\" x=\"''
                 @ numberToString e (?b + 50)
                 @ ''\" y=\"12.5\" data-testid=\"'' @ specRowKeys (show_keys opts) (hide opts) ! i
                 @ ''\">'' @ post1"
  proof (intro allI impI)
    fix i assume "i < length (statItems e stats ?o2)"
    then have i2: "i < length (statItems e stats ?o2)" and i1: "i < length (statItems e stats ?o1)"
      by (simp_all only: len1 len2)
    have x1: "(if show_icons ?o1 then 140 else 120) + (79.01 + (if isLongLocale ?o1 then 50 else 0))
              = ?b + 50"
      using l1 by simp
    have x2: "(if show_icons ?o2 then 140 else 120) + (79.01 + (if isLongLocale ?o2 then 50 else 0))
              = ?b"
      using l2 by simp
    obtain pre2 post2 where m2: "statItems e stats ?o2 ! i =
                 pre2 @ ''<text class=\"stat '' @ (if text_bold opts then '' bold'' else ''not_bold'')
                 @ ''\" x=\"''
                 @ numberToString e ?b
                 @ ''\" y=\"12.5\" data-testid=\"'' @ specRowKeys (show_keys opts) (hide opts) ! i
                 @ ''\">'' @ post2"
      using statItems_nth_markup [OF i2] unfolding x2 by auto
    obtain pre1 post1 where m1: "statItems e stats ?o1 ! i =
                 pre1 @ ''<text class=\"stat '' @ (if text_bold opts then '' bold'' else ''not_bold'')
                 @ ''\" x=\"''
                 @ numberToString e (?b + 50)
                 @ ''\" y=\"12.5\" data-testid=\"'' @ specRowKeys (show_keys opts) (hide opts) ! i
                 @ ''\">'' @ post1"
      using statItems_nth_markup [OF i1] unfolding x1 by auto
    from m1 m2 show "\<exists>pre1 post1 pre2 post2.
               statItems e stats ?o2 ! i =
                 pre2 @ ''<text class=\"stat '' @ (if text_bold opts then '' bold'' else ''not_bold'')
                 @ ''\" x=\"''
                 @ numberToString e ?b
                 @ ''\" y=\"12.5\" data-testid=\"'' @ specRowKeys (show_keys opts) (hide opts) ! i
                 @ ''\">'' @ post2
               \<and> statItems e stats ?o1 ! i =
                 pre1 @ ''<text class=\"stat '' @ (if text_bold opts then '' bold'' else ''not_bold'')
                 @ ''\" x=\"''
                 @ numberToString e (?b + 50)
                 @ ''\" y=\"12.5\" data-testid=\"'' @ specRowKeys (show_keys opts) (hide opts) ! i
                 @ ''\">'' @ post1"
      by blast
  qed
qed

lemma natString_x: "natString 199 = ''199''" "natString 249 = ''249''"
  by code_simp+

lemma sample_numberToString_x:
  "numberToString sampleEnv (19901 / 100) = ''199''"
  "numberToString sampleEnv (24901 / 100) = ''249''"
  by (simp_all add: sampleEnv_def natString_x)

theorem locale_shift_witness:
  "isLongLocale (defaultOptions\<lparr>locale_opt := Some ''fr''\<rparr>)
   \<and> \<not> isLongLocale (defaultOptions\<lparr>locale_opt := Some ''en''\<rparr>)
   \<and> map valueX (statItemParams sampleEnv sampleStats (defaultOptions\<lparr>locale_opt := Some ''fr''\<rparr>))
       = map (\<lambda>p. valueX p + 50)
           (statItemParams sampleEnv sampleStats (defaultOptions\<lparr>locale_opt := Some ''en''\<rparr>))
   \<and> map valueX (statItemParams sampleEnv sampleStats (defaultOptions\<lparr>locale_opt := Some ''en''\<rparr>))
       = [199.01, 199.01, 199.01, 199.01, 199.01]
   \<and> 0 < length (statItems sampleEnv sampleStats (defaultOptions\<lparr>locale_opt := Some ''en''\<rparr>))
   \<and> (\<exists>pre1 post1 pre2 post2.
         statItems sampleEnv sampleStats (defaultOptions\<lparr>locale_opt := Some ''en''\<rparr>) ! 0
           = pre2 @ ''<text class=\"stat  bold\" x=\"199\" y=\"12.5\" data-testid=\"stars\">'' @ post2
         \<and> statItems sampleEnv sampleStats (defaultOptions\<lparr>locale_opt := Some ''fr''\<rparr>) ! 0
           = pre1 @ ''<text class=\"stat  bold\" x=\"249\" y=\"12.5\" data-testid=\"stars\">'' @ post1)"
proof -
  let ?fr = "defaultOptions\<lparr>locale_opt := Some ''fr''\<rparr>"
  let ?en = "defaultOptions\<lparr>locale_opt := Some ''en''\<rparr>"
  have a: "isLongLocale ?fr"
    by (simp add: isLongLocale_def longLocales_def)
  have b: "\<not> isLongLocale ?en"
    by (simp add: isLongLocale_def longLocales_def)
  have c: "map valueX (statItemParams sampleEnv sampleStats ?en)
       = [199.01, 199.01, 199.01, 199.01, 199.01]"
    using b by (simp add: valueX_rows) (simp add: defaultOptions_def specRowKeys_def
          canonicalKeys_def alwaysKeys_def)
  note th = locale_shift [where opts = defaultOptions and l = "''fr''" and ?lo1.0 = "Some ''fr''"
        and ?lo2.0 = "Some ''en''" and e = sampleEnv and stats = sampleStats]
  from th a b have shift: "map valueX (statItemParams sampleEnv sampleStats ?fr)
       = map (\<lambda>p. valueX p + 50) (statItemParams sampleEnv sampleStats ?en)"
    by blast
  have keys: "specRowKeys (show_keys defaultOptions) (hide defaultOptions)
       = [''stars'', ''commits'', ''prs'', ''issues'', ''contribs'']"
    by (simp add: defaultOptions_def specRowKeys_def canonicalKeys_def alwaysKeys_def)
  have len: "length (statItems sampleEnv sampleStats ?en) = 5"
    using rowCount_keys [of sampleEnv sampleStats ?en] by (simp add: rowCount_def keys)
  then have pos: "0 < length (statItems sampleEnv sampleStats ?en)" by simp
  have opts: "\<not> show_icons defaultOptions" "text_bold defaultOptions"
    by (simp_all add: defaultOptions_def)
  from th a b have "\<forall>i < length (statItems sampleEnv sampleStats ?en).
             \<exists>pre1 post1 pre2 post2.
               statItems sampleEnv sampleStats ?en ! i =
                 pre2 @ ''<text class=\"stat '' @ (if text_bold defaultOptions then '' bold'' else ''not_bold'')
                 @ ''\" x=\"''
                 @ numberToString sampleEnv ((if show_icons defaultOptions then 140 else 120) + 79.01)
                 @ ''\" y=\"12.5\" data-testid=\"''
                 @ specRowKeys (show_keys defaultOptions) (hide defaultOptions) ! i
                 @ ''\">'' @ post2
               \<and> statItems sampleEnv sampleStats ?fr ! i =
                 pre1 @ ''<text class=\"stat '' @ (if text_bold defaultOptions then '' bold'' else ''not_bold'')
                 @ ''\" x=\"''
                 @ numberToString sampleEnv ((if show_icons defaultOptions then 140 else 120) + 79.01 + 50)
                 @ ''\" y=\"12.5\" data-testid=\"''
                 @ specRowKeys (show_keys defaultOptions) (hide defaultOptions) ! i
                 @ ''\">'' @ post1"
    by blast
  then have "\<exists>pre1 post1 pre2 post2.
               statItems sampleEnv sampleStats ?en ! 0 =
                 pre2 @ ''<text class=\"stat '' @ (if text_bold defaultOptions then '' bold'' else ''not_bold'')
                 @ ''\" x=\"''
                 @ numberToString sampleEnv ((if show_icons defaultOptions then 140 else 120) + 79.01)
                 @ ''\" y=\"12.5\" data-testid=\"''
                 @ specRowKeys (show_keys defaultOptions) (hide defaultOptions) ! 0
                 @ ''\">'' @ post2
               \<and> statItems sampleEnv sampleStats ?fr ! 0 =
                 pre1 @ ''<text class=\"stat '' @ (if text_bold defaultOptions then '' bold'' else ''not_bold'')
                 @ ''\" x=\"''
                 @ numberToString sampleEnv ((if show_icons defaultOptions then 140 else 120) + 79.01 + 50)
                 @ ''\" y=\"12.5\" data-testid=\"''
                 @ specRowKeys (show_keys defaultOptions) (hide defaultOptions) ! 0
                 @ ''\">'' @ post1"
    using pos by blast
  then have row: "\<exists>pre1 post1 pre2 post2.
         statItems sampleEnv sampleStats ?en ! 0
           = pre2 @ ''<text class=\"stat  bold\" x=\"199\" y=\"12.5\" data-testid=\"stars\">'' @ post2
         \<and> statItems sampleEnv sampleStats ?fr ! 0
           = pre1 @ ''<text class=\"stat  bold\" x=\"249\" y=\"12.5\" data-testid=\"stars\">'' @ post1"
    by (simp add: opts keys sample_numberToString_x)
  from a b c shift pos row show ?thesis by blast
qed

subsection \<open>Accessibility description\<close>

lemma visibleStats_nth_stat_id:
  "i < length (visibleStats e stats opts) \<Longrightarrow>
     stat_id (snd (visibleStats e stats opts ! i)) = fst (visibleStats e stats opts ! i)"
  using visibleStats_stat_id [of "visibleStats e stats opts ! i" e stats opts] by simp

lemma statItemParams_nth:
  "i < length (visibleStats e stats opts) \<Longrightarrow>
     stat_id (statItemParams e stats opts ! i) = fst (visibleStats e stats opts ! i)
     \<and> label (statItemParams e stats opts ! i) = label (snd (visibleStats e stats opts ! i))
     \<and> val (statItemParams e stats opts ! i) = val (snd (visibleStats e stats opts ! i))"
  by (simp add: statItemParams_def nth_enumerate_eq case_prod_unfold visibleStats_nth_stat_id)

text \<open>
  Claim C8. The description has one entry per visible row, in the order of the rows: the
  entry at position \<open>i\<close> is built from the label and value of row \<open>i\<close>. The entry of
  the commits row is the translated commits label, followed by "in" and the current year
  when \<^verbatim>\<open>include_all_commits\<close> is unset and by nothing when it is set, then the value.
  The entries are joined with ", " into the description of the card.
\<close>

theorem accessibility_description:
  "length (accessLabels e stats opts) = length (statItemParams e stats opts)
   \<and> (\<forall>i < length (statItemParams e stats opts).
         accessLabels e stats opts ! i =
           (if stat_id (statItemParams e stats opts ! i) = ''commits''
            then i18n e stats opts ''statcard.commits'' @ '' ''
                 @ (if include_all_commits opts then ''''
                    else ''in '' @ numberToString e (real (currentYear e)))
                 @ '' : '' @ jsString e (val (statItemParams e stats opts ! i))
            else label (statItemParams e stats opts ! i) @ '': ''
                 @ jsString e (val (statItemParams e stats opts ! i))))
   \<and> a11yDesc (buildCard e stats opts) = join '', '' (accessLabels e stats opts)"
proof (intro conjI allI impI)
  show "length (accessLabels e stats opts) = length (statItemParams e stats opts)"
    by (simp add: accessLabels_def statItemParams_def)
  show "a11yDesc (buildCard e stats opts) = join '', '' (accessLabels e stats opts)"
    by (simp add: buildCard_def Let_def labels_def)
next
  fix i assume "i < length (statItemParams e stats opts)"
  then have i: "i < length (visibleStats e stats opts)"
    by (simp add: statItemParams_def)
  have "accessLabels e stats opts ! i = accessLabel e stats opts (visibleStats e stats opts ! i)"
    using i by (simp add: accessLabels_def)
  then show "accessLabels e stats opts ! i =
           (if stat_id (statItemParams e stats opts ! i) = ''commits''
            then i18n e stats opts ''statcard.commits'' @ '' ''
                 @ (if include_all_commits opts then ''''
                    else ''in '' @ numberToString e (real (currentYear e)))
                 @ '' : '' @ jsString e (val (statItemParams e stats opts ! i))
            else label (statItemParams e stats opts ! i) @ '': ''
                 @ jsString e (val (statItemParams e stats opts ! i)))"
    using statItemParams_nth [OF i]
    by (simp add: accessLabel_def case_prod_unfold)
qed

lemma natString_samples:
  "natString 2026 = ''2026''" "natString 200 = ''200''" "natString 300 = ''300''"
  "natString 400 = ''400''" "natString 500 = ''500''"
  by code_simp+

lemma sample_numberToString:
  "numberToString sampleEnv 2026 = ''2026''" "numberToString sampleEnv 200 = ''200''"
  "numberToString sampleEnv 300 = ''300''" "numberToString sampleEnv 400 = ''400''"
  "numberToString sampleEnv 500 = ''500''"
  by (simp_all add: sampleEnv_def natString_samples)

lemma sample_env_fields:
  "i18n_t sampleEnv loc nm ap key = key" "currentYear sampleEnv = 2026"
  by (simp_all add: sampleEnv_def)

theorem accessibility_description_witness:
  "0 < length (statItemParams sampleEnv sampleStats (defaultOptions\<lparr>hide := [''stars'']\<rparr>))
   \<and> stat_id (statItemParams sampleEnv sampleStats (defaultOptions\<lparr>hide := [''stars'']\<rparr>) ! 0)
       = ''commits''
   \<and> accessLabels sampleEnv sampleStats (defaultOptions\<lparr>hide := [''stars'']\<rparr>) ! 0
       = ''statcard.commits in 2026 : 200''
   \<and> a11yDesc (buildCard sampleEnv sampleStats (defaultOptions\<lparr>hide := [''stars'']\<rparr>))
       = ''statcard.commits in 2026 : 200, statcard.prs: 400, statcard.issues: 300, statcard.contribs: 500''"
proof -
  let ?o = "defaultOptions\<lparr>hide := [''stars'']\<rparr>"
  have vis: "map (\<lambda>ke. (fst ke, val (snd ke), label (snd ke))) (visibleStats sampleEnv sampleStats ?o)
      = [(''commits'', Num 200, ''statcard.commits (2026)''), (''prs'', Num 400, ''statcard.prs''),
         (''issues'', Num 300, ''statcard.issues''), (''contribs'', Num 500, ''statcard.contribs'')]"
    by (simp add: visibleStats_def STATS_def defaultOptions_def sampleStats_def i18n_def
          sample_env_fields sample_numberToString)
  have len: "length (visibleStats sampleEnv sampleStats ?o) = 4"
    using arg_cong [OF vis, of length] by simp
  have len': "length (statItemParams sampleEnv sampleStats ?o) = 4"
    using len by (simp add: statItemParams_def)
  have nth: "fst (visibleStats sampleEnv sampleStats ?o ! 0) = ''commits''"
       "val (snd (visibleStats sampleEnv sampleStats ?o ! 0)) = Num 200"
    using arg_cong [OF vis, of "\<lambda>xs. xs ! 0"] len by simp_all
  have p0: "stat_id (statItemParams sampleEnv sampleStats ?o ! 0) = ''commits''"
       "val (statItemParams sampleEnv sampleStats ?o ! 0) = Num 200"
    using statItemParams_nth [of 0 sampleEnv sampleStats ?o] len nth by simp_all
  have iac: "\<not> include_all_commits ?o" by (simp add: defaultOptions_def)
  have l0: "accessLabels sampleEnv sampleStats ?o ! 0 = ''statcard.commits in 2026 : 200''"
    using accessibility_description [of sampleEnv sampleStats ?o, THEN conjunct2, THEN conjunct1]
      len' p0 iac
    by (simp add: i18n_def sample_env_fields jsString_def sample_numberToString)
  have all: "accessLabels sampleEnv sampleStats ?o
      = [''statcard.commits in 2026 : 200'', ''statcard.prs: 400'', ''statcard.issues: 300'',
         ''statcard.contribs: 500'']"
    by (simp add: accessLabels_def accessLabel_def visibleStats_def STATS_def defaultOptions_def
          sampleStats_def i18n_def sample_env_fields jsString_def sample_numberToString)
  have desc: "a11yDesc (buildCard sampleEnv sampleStats ?o)
       = ''statcard.commits in 2026 : 200, statcard.prs: 400, statcard.issues: 300, statcard.contribs: 500''"
    using accessibility_description [of sampleEnv sampleStats ?o, THEN conjunct2, THEN conjunct2]
    by (simp add: all)
  from len' p0 l0 desc show ?thesis by simp
qed

end
